theory Spec2Isabelle
  imports Complex_Main
begin

section \<open>Python values as the audio pipeline sees them\<close>

text \<open>
  The pipeline of \<^verbatim>\<open>api/services/audio_service.py\<close> works on what \<^verbatim>\<open>json.loads\<close>
  returns: \<^verbatim>\<open>None\<close>, booleans, numbers, strings, lists and dicts. A number is the
  real that a Python \<^verbatim>\<open>int\<close> or a finite \<^verbatim>\<open>float\<close> stands for (NaN and the infinities
  are outside the model); strings are byte strings in UTF-8; a dict is an
  association list in insertion order, read with \<^const>\<open>map_of\<close>.
\<close>

datatype json =
    JNull
  | JBool bool
  | JNum real
  | JStr string
  | JArr "json list"
  | JObj "(string \<times> json) list"

type_synonym pydict = "(string \<times> json) list"

datatype py_error =
    ValueError
  | TypeError
  | KeyError
  | AttributeError
  | OverflowError
  | GenericException

text \<open>
  A Python \<^verbatim>\<open>float\<close> is a double, and what Python does with doubles is a parameter
  of the model:

    \<^item> \<open>float_str s\<close> is \<^verbatim>\<open>float(s)\<close> on a string, \<open>None\<close> where it raises
      \<^verbatim>\<open>ValueError\<close>;

    \<^item> \<open>float_num x\<close> is \<^verbatim>\<open>float(x)\<close> on a number, also where an \<^verbatim>\<open>int\<close> meets a
      \<^verbatim>\<open>float\<close> in a sum: an \<^verbatim>\<open>int\<close> becomes the nearest double, \<open>None\<close> where it
      is too large and Python raises \<^verbatim>\<open>OverflowError\<close>; a double stays what it is;

    \<^item> \<open>rnd x\<close> is the double that a sum or a product of doubles returns when its
      exact result is \<open>x\<close>: the operations of IEEE 754 give the exact result,
      rounded;

    \<^item> \<open>divide x y\<close> is the quotient \<^verbatim>\<open>x / y\<close> of two numbers, a double: \<open>None\<close> where
      Python raises \<^verbatim>\<open>OverflowError\<close>, as it does for an \<^verbatim>\<open>int\<close> that is too large.
\<close>

record py_float =
  float_str :: "string \<Rightarrow> real option"
  float_num :: "real \<Rightarrow> real option"
  rnd :: "real \<Rightarrow> real"
  divide :: "real \<Rightarrow> real \<Rightarrow> real option"

text \<open>
  The examples are computed with \<open>no_rounding\<close>: arithmetic without rounding error,
  and a \<^verbatim>\<open>float\<close> that reads no string. Their timestamps are whole numbers of
  seconds, on which the sums of doubles are exact.
\<close>

definition no_rounding :: py_float where
  "no_rounding =
     \<lparr>float_str = (\<lambda>s. None), float_num = Some, rnd = (\<lambda>x. x), divide = (\<lambda>x y. Some (x / y))\<rparr>"

text \<open>Python truthiness (\<^verbatim>\<open>if x:\<close>) of a JSON value.\<close>

fun truthy :: "json \<Rightarrow> bool" where
  "truthy JNull = False"
| "truthy (JBool b) = b"
| "truthy (JNum r) = (r \<noteq> 0)"
| "truthy (JStr s) = (s \<noteq> [])"
| "truthy (JArr xs) = (xs \<noteq> [])"
| "truthy (JObj d) = (d \<noteq> [])"

text \<open>\<^verbatim>\<open>d[k] = v\<close>: an existing key keeps its place, a new key goes to the end.\<close>

fun dict_set :: "pydict \<Rightarrow> string \<Rightarrow> json \<Rightarrow> pydict" where
  "dict_set [] k v = [(k, v)]"
| "dict_set ((k', v') # d) k v =
     (if k' = k then (k, v) # d else (k', v') # dict_set d k v)"

text \<open>\<^verbatim>\<open>d.get(k, default)\<close>.\<close>

definition dict_get :: "pydict \<Rightarrow> string \<Rightarrow> json \<Rightarrow> json" where
  "dict_get d k dflt = (case map_of d k of Some v \<Rightarrow> v | None \<Rightarrow> dflt)"

subsection \<open>String helpers\<close>

text \<open>
  \<^verbatim>\<open>str.lower()\<close> on the ASCII letters. Every word the pipeline compares a lowered
  string with is made of ASCII letters other than \<^verbatim>\<open>k\<close>, so the letters outside ASCII
  (which Python would also lower) never decide such a comparison.
\<close>

definition lower_char :: "char \<Rightarrow> char" where
  "lower_char c =
     (case map_of (zip ''ABCDEFGHIJKLMNOPQRSTUVWXYZ'' ''abcdefghijklmnopqrstuvwxyz'') c of
        Some l \<Rightarrow> l
      | None \<Rightarrow> c)"

definition py_lower :: "string \<Rightarrow> string" where
  "py_lower s = map lower_char s"

text \<open>
  The characters of the class \<^verbatim>\<open>[\x00-\x08\x0b\x0c\x0e-\x1f]\<close> that the cleaning
  steps delete.
\<close>

definition control_chars :: "char list" where
  "control_chars =
     [CHR 0x00, CHR 0x01, CHR 0x02, CHR 0x03, CHR 0x04, CHR 0x05, CHR 0x06, CHR 0x07,
      CHR 0x08, CHR 0x0B, CHR 0x0C, CHR 0x0E, CHR 0x0F, CHR 0x10, CHR 0x11, CHR 0x12,
      CHR 0x13, CHR 0x14, CHR 0x15, CHR 0x16, CHR 0x17, CHR 0x18, CHR 0x19, CHR 0x1A,
      CHR 0x1B, CHR 0x1C, CHR 0x1D, CHR 0x1E, CHR 0x1F]"

definition remove_controls :: "string \<Rightarrow> string" where
  "remove_controls s =
     filter (\<lambda>c. c \<notin> set control_chars) (filter (\<lambda>c. c \<noteq> CHR 0x00) s)"

text \<open>
  \<^verbatim>\<open>str.strip()\<close>. Python strips the Unicode white space; in UTF-8 these are ten
  single bytes, and the two- and three-byte encodings of U+0085, U+00A0, U+1680,
  U+2000..U+200A, U+2028, U+2029, U+202F, U+205F and U+3000.
\<close>

definition ws1 :: "char \<Rightarrow> bool" where
  "ws1 a = (a \<in> set [CHR 0x09, CHR 0x0A, CHR 0x0B, CHR 0x0C, CHR 0x0D,
                      CHR 0x1C, CHR 0x1D, CHR 0x1E, CHR 0x1F, CHR 0x20])"

definition ws2 :: "char \<Rightarrow> char \<Rightarrow> bool" where
  "ws2 a b = (a = CHR 0xC2 \<and> (b = CHR 0x85 \<or> b = CHR 0xA0))"

definition ws3 :: "char \<Rightarrow> char \<Rightarrow> char \<Rightarrow> bool" where
  "ws3 a b c =
     ((a = CHR 0xE1 \<and> b = CHR 0x9A \<and> c = CHR 0x80)
    \<or> (a = CHR 0xE2 \<and> b = CHR 0x80 \<and>
         c \<in> set [CHR 0x80, CHR 0x81, CHR 0x82, CHR 0x83, CHR 0x84, CHR 0x85, CHR 0x86,
                   CHR 0x87, CHR 0x88, CHR 0x89, CHR 0x8A, CHR 0xA8, CHR 0xA9, CHR 0xAF])
    \<or> (a = CHR 0xE2 \<and> b = CHR 0x81 \<and> c = CHR 0x9F)
    \<or> (a = CHR 0xE3 \<and> b = CHR 0x80 \<and> c = CHR 0x80))"

text \<open>
  Dropping the leading white space; with \<open>back = True\<close> the string is read from its
  end, so the bytes of a code point arrive in reverse.
\<close>

fun drop_ws :: "bool \<Rightarrow> string \<Rightarrow> string" where
  "drop_ws back (a # b # c # s) =
     (if ws1 a then drop_ws back (b # c # s)
      else if (if back then ws2 b a else ws2 a b) then drop_ws back (c # s)
      else if (if back then ws3 c b a else ws3 a b c) then drop_ws back s
      else a # b # c # s)"
| "drop_ws back [a, b] =
     (if ws1 a then drop_ws back [b]
      else if (if back then ws2 b a else ws2 a b) then []
      else [a, b])"
| "drop_ws back [a] = (if ws1 a then [] else [a])"
| "drop_ws back [] = []"

definition py_strip :: "string \<Rightarrow> string" where
  "py_strip s = rev (drop_ws True (rev (drop_ws False s)))"

text \<open>
  \<^verbatim>\<open>str(x)\<close>: the identity on a string; what Python prints for the other values is
  the parameter \<open>repr\<close>.
\<close>

fun py_str :: "(json \<Rightarrow> string) \<Rightarrow> json \<Rightarrow> string" where
  "py_str repr (JStr s) = s"
| "py_str repr v = repr v"

section \<open>The JSON-extraction step of transcription parsing\<close>

text \<open>
  \<^verbatim>\<open>AudioProcessor.safe_extract_json\<close>, from the point where the model's text has
  been cut out and parsed (\<open>parsed\<close> is what \<^verbatim>\<open>_extract_and_parse\<close> gives after its
  retries: the parsed JSON, or the exception).
\<close>

text \<open>
  The \<^verbatim>\<open>Text\<close>/\<^verbatim>\<open>text\<close> normalisation; \<open>None\<close> is the source's
  \<^verbatim>\<open>continue\<close>.
\<close>

definition normalize_text_key :: "pydict \<Rightarrow> pydict option" where
  "normalize_text_key item =
     (case (map_of item ''Text'', map_of item ''text'') of
        (Some t, None) \<Rightarrow> Some (dict_set item ''text'' t)
      | (None, None) \<Rightarrow> None
      | (_, Some _) \<Rightarrow> Some item)"

definition clean_text_field :: "(json \<Rightarrow> string) \<Rightarrow> pydict \<Rightarrow> pydict" where
  "clean_text_field repr item =
     (case map_of item ''text'' of
        None \<Rightarrow> item
      | Some v \<Rightarrow>
          if truthy v then
            (let text = remove_controls (py_str repr v);
                 cleaned_text = py_strip text
             in if cleaned_text \<noteq> [] \<or> \<not> (py_strip text \<noteq> [])
                then dict_set item ''text'' (if cleaned_text \<noteq> [] then JStr cleaned_text else v)
                else item)
          else item)"

definition ensure_speaker :: "pydict \<Rightarrow> pydict" where
  "ensure_speaker item =
     (case map_of item ''speaker'' of
        None \<Rightarrow> dict_set item ''speaker'' (JStr ''speaker1'')
      | Some _ \<Rightarrow> item)"

definition clean_speaker_field :: "(json \<Rightarrow> string) \<Rightarrow> pydict \<Rightarrow> pydict" where
  "clean_speaker_field repr item =
     (case map_of item ''speaker'' of
        None \<Rightarrow> item
      | Some v \<Rightarrow>
          if truthy v then
            (let speaker = remove_controls (py_str repr v)
             in dict_set item ''speaker''
                  (if py_strip speaker \<noteq> [] then JStr (py_strip speaker) else v))
          else item)"

text \<open>One turn of the validation loop: \<open>None\<close> when the item is skipped.\<close>

definition clean_segment :: "(json \<Rightarrow> string) \<Rightarrow> json \<Rightarrow> json option" where
  "clean_segment repr item =
     (case item of
        JObj d \<Rightarrow>
          if \<not> (map_of d ''start'' \<noteq> None \<and> map_of d ''end'' \<noteq> None) then None
          else (case normalize_text_key d of
                  None \<Rightarrow> None
                | Some d1 \<Rightarrow>
                    Some (JObj (clean_speaker_field repr
                                 (ensure_speaker (clean_text_field repr d1)))))
      | _ \<Rightarrow> None)"

definition json_items :: "json \<Rightarrow> json list" where
  "json_items json_data = (case json_data of JArr xs \<Rightarrow> xs | v \<Rightarrow> [v])"

definition safe_extract_json :: "(json \<Rightarrow> string) \<Rightarrow> py_error + json \<Rightarrow> py_error + json list" where
  "safe_extract_json repr parsed =
     (case parsed of
        Inl e \<Rightarrow> Inl ValueError
      | Inr json_data \<Rightarrow>
          (let cleaned_data = List.map_filter (clean_segment repr) (json_items json_data)
           in if cleaned_data = [] then Inl ValueError else Inr cleaned_data))"

subsection \<open>What the extraction step returns\<close>

lemma map_of_dict_set:
  "map_of (dict_set d k v) k' = (if k' = k then Some v else map_of d k')"
  by (induction d) auto

lemma normalize_text_key_keeps:
  assumes "normalize_text_key d = Some d1"
  shows "map_of d1 ''text'' \<noteq> None"
    and "map_of d k \<noteq> None \<Longrightarrow> map_of d1 k \<noteq> None"
    and "k \<noteq> ''text'' \<Longrightarrow> map_of d1 k = map_of d k"
  using assms
  by (auto simp: normalize_text_key_def map_of_dict_set split: option.splits)

lemma clean_text_field_keeps:
  "map_of d k \<noteq> None \<Longrightarrow> map_of (clean_text_field repr d) k \<noteq> None"
  "k \<noteq> ''text'' \<Longrightarrow> map_of (clean_text_field repr d) k = map_of d k"
  by (auto simp: clean_text_field_def Let_def map_of_dict_set split: option.splits)

lemma ensure_speaker_keeps:
  "map_of (ensure_speaker d) ''speaker'' \<noteq> None"
  "map_of d k \<noteq> None \<Longrightarrow> map_of (ensure_speaker d) k \<noteq> None"
  "map_of d ''speaker'' = None \<Longrightarrow>
     map_of (ensure_speaker d) ''speaker'' = Some (JStr ''speaker1'')"
  by (auto simp: ensure_speaker_def map_of_dict_set split: option.splits)

lemma clean_speaker_field_keeps:
  "map_of d k \<noteq> None \<Longrightarrow> map_of (clean_speaker_field repr d) k \<noteq> None"
  by (auto simp: clean_speaker_field_def Let_def map_of_dict_set split: option.splits)

lemma speaker1_is_clean:
  "remove_controls ''speaker1'' = ''speaker1''"
  "py_strip ''speaker1'' = ''speaker1''"
  by (simp_all add: remove_controls_def control_chars_def py_strip_def ws1_def ws2_def ws3_def)

lemma clean_speaker_field_default:
  "map_of d ''speaker'' = Some (JStr ''speaker1'') \<Longrightarrow>
     map_of (clean_speaker_field repr d) ''speaker'' = Some (JStr ''speaker1'')"
  by (simp add: clean_speaker_field_def map_of_dict_set speaker1_is_clean)

lemma clean_segment_Some:
  assumes "clean_segment repr item = Some seg"
  shows "\<exists>d d'. item = JObj d \<and> seg = JObj d'
           \<and> map_of d' ''start'' \<noteq> None \<and> map_of d' ''end'' \<noteq> None
           \<and> map_of d' ''text'' \<noteq> None \<and> map_of d' ''speaker'' \<noteq> None
           \<and> (map_of d ''speaker'' = None \<longrightarrow> map_of d' ''speaker'' = Some (JStr ''speaker1''))"
proof (cases item)
  case (JObj d)
  from assms JObj obtain d1 where
    se: "map_of d ''start'' \<noteq> None" "map_of d ''end'' \<noteq> None"
    and n: "normalize_text_key d = Some d1"
    and seg: "seg = JObj (clean_speaker_field repr (ensure_speaker (clean_text_field repr d1)))"
    by (auto simp: clean_segment_def split: if_splits option.splits)
  let ?d2 = "clean_text_field repr d1"
  let ?d3 = "ensure_speaker ?d2"
  let ?d4 = "clean_speaker_field repr ?d3"
  have keep: "map_of d k \<noteq> None \<Longrightarrow> map_of ?d4 k \<noteq> None" for k
    by (intro clean_speaker_field_keeps ensure_speaker_keeps(2) clean_text_field_keeps(1)
        normalize_text_key_keeps(2) [OF n])
  have has_text: "map_of ?d4 ''text'' \<noteq> None"
    by (intro clean_speaker_field_keeps ensure_speaker_keeps(2) clean_text_field_keeps(1)
        normalize_text_key_keeps(1) [OF n])
  have spk: "map_of ?d4 ''speaker'' \<noteq> None"
    by (intro clean_speaker_field_keeps ensure_speaker_keeps(1))
  have dflt: "map_of ?d4 ''speaker'' = Some (JStr ''speaker1'')" if "map_of d ''speaker'' = None"
  proof -
    have "map_of d1 ''speaker'' = None"
      using normalize_text_key_keeps(3) [OF n, of "''speaker''"] that by simp
    then have "map_of ?d2 ''speaker'' = None"
      by (simp add: clean_text_field_keeps(2))
    then show ?thesis
      by (intro clean_speaker_field_default ensure_speaker_keeps(3))
  qed
  have "item = JObj d \<and> seg = JObj ?d4
           \<and> map_of ?d4 ''start'' \<noteq> None \<and> map_of ?d4 ''end'' \<noteq> None
           \<and> map_of ?d4 ''text'' \<noteq> None \<and> map_of ?d4 ''speaker'' \<noteq> None
           \<and> (map_of d ''speaker'' = None \<longrightarrow> map_of ?d4 ''speaker'' = Some (JStr ''speaker1''))"
    using JObj seg keep [OF se(1)] keep [OF se(2)] has_text spk dflt by simp
  then show ?thesis by (intro exI)
qed (use assms in \<open>simp_all add: clean_segment_def\<close>)

lemmas extract_defs =
  safe_extract_json_def List.map_filter_simps clean_segment_def normalize_text_key_def
  clean_text_field_def ensure_speaker_def clean_speaker_field_def remove_controls_def
  control_chars_def py_strip_def ws1_def ws2_def ws3_def json_items_def Let_def

text \<open>
  \<^bold>\<open>C10.\<close> Every segment that the JSON-extraction step returns is a dict that comes from
  an item of the parsed response and has the keys \<^verbatim>\<open>start\<close>, \<^verbatim>\<open>end\<close>, \<^verbatim>\<open>text\<close> and
  \<^verbatim>\<open>speaker\<close>; where the item had no \<^verbatim>\<open>speaker\<close>, the segment's speaker is the
  default label \<^verbatim>\<open>speaker1\<close>. The returned list is never empty: when no item of the
  parsed response qualifies (and when parsing itself failed) the step raises
  \<^verbatim>\<open>ValueError\<close>.
\<close>

theorem safe_extract_json_segments:
  "(\<forall>segs. safe_extract_json repr (Inr json_data) = Inr segs \<longrightarrow>
      segs \<noteq> [] \<and>
      (\<forall>seg \<in> set segs. \<exists>item \<in> set (json_items json_data). \<exists>d d'.
          item = JObj d \<and> seg = JObj d' \<and> clean_segment repr item = Some seg
        \<and> map_of d' ''start'' \<noteq> None \<and> map_of d' ''end'' \<noteq> None
        \<and> map_of d' ''text'' \<noteq> None \<and> map_of d' ''speaker'' \<noteq> None
        \<and> (map_of d ''speaker'' = None \<longrightarrow> map_of d' ''speaker'' = Some (JStr ''speaker1''))))
   \<and> ((\<forall>item \<in> set (json_items json_data). clean_segment repr item = None) \<longrightarrow>
        safe_extract_json repr (Inr json_data) = Inl ValueError)
   \<and> (\<forall>e. safe_extract_json repr (Inl e) = Inl ValueError)"
proof (intro conjI allI impI)
  fix segs
  assume r: "safe_extract_json repr (Inr json_data) = Inr segs"
  then have segs: "segs = List.map_filter (clean_segment repr) (json_items json_data)"
    and ne: "segs \<noteq> []"
    by (auto simp: safe_extract_json_def Let_def split: if_splits)
  show "segs \<noteq> []" by (rule ne)
  show "\<forall>seg \<in> set segs. \<exists>item \<in> set (json_items json_data). \<exists>d d'.
          item = JObj d \<and> seg = JObj d' \<and> clean_segment repr item = Some seg
        \<and> map_of d' ''start'' \<noteq> None \<and> map_of d' ''end'' \<noteq> None
        \<and> map_of d' ''text'' \<noteq> None \<and> map_of d' ''speaker'' \<noteq> None
        \<and> (map_of d ''speaker'' = None \<longrightarrow> map_of d' ''speaker'' = Some (JStr ''speaker1''))"
  proof
    fix seg assume "seg \<in> set segs"
    then obtain item where it: "item \<in> set (json_items json_data)"
      and cs: "clean_segment repr item = Some seg"
      unfolding segs by (auto simp: List.map_filter_def)
    from clean_segment_Some [OF cs] cs it
    show "\<exists>item \<in> set (json_items json_data). \<exists>d d'.
          item = JObj d \<and> seg = JObj d' \<and> clean_segment repr item = Some seg
        \<and> map_of d' ''start'' \<noteq> None \<and> map_of d' ''end'' \<noteq> None
        \<and> map_of d' ''text'' \<noteq> None \<and> map_of d' ''speaker'' \<noteq> None
        \<and> (map_of d ''speaker'' = None \<longrightarrow> map_of d' ''speaker'' = Some (JStr ''speaker1''))"
      by (intro bexI [of _ item]) auto
  qed
next
  assume "\<forall>item \<in> set (json_items json_data). clean_segment repr item = None"
  then have "List.map_filter (clean_segment repr) (json_items json_data) = []"
    by (simp add: List.map_filter_def filter_empty_conv)
  then show "safe_extract_json repr (Inr json_data) = Inl ValueError"
    by (simp add: safe_extract_json_def)
next
  fix e show "safe_extract_json repr (Inl e) = Inl ValueError"
    by (simp add: safe_extract_json_def)
qed

theorem safe_extract_json_segments_witness:
  "safe_extract_json (\<lambda>_. [])
     (Inr (JArr [JObj [(''start'', JNum 0), (''end'', JNum 2), (''Text'', JStr '' hi '')],
                 JStr ''junk'']))
   = Inr [JObj [(''start'', JNum 0), (''end'', JNum 2), (''Text'', JStr '' hi ''),
                (''text'', JStr ''hi''), (''speaker'', JStr ''speaker1'')]]
   \<and> safe_extract_json (\<lambda>_. []) (Inr (JArr [JStr ''junk''])) = Inl ValueError"
proof -
  have h1: "safe_extract_json (\<lambda>_. [])
     (Inr (JArr [JObj [(''start'', JNum 0), (''end'', JNum 2), (''Text'', JStr '' hi '')],
                 JStr ''junk'']))
   = Inr [JObj [(''start'', JNum 0), (''end'', JNum 2), (''Text'', JStr '' hi ''),
                (''text'', JStr ''hi''), (''speaker'', JStr ''speaker1'')]]"
    by (simp add: extract_defs)
  have h2: "\<forall>item \<in> set (json_items (JArr [JStr ''junk''])). clean_segment (\<lambda>_. []) item = None"
    by (simp add: json_items_def clean_segment_def)
  have "safe_extract_json (\<lambda>_. []) (Inr (JArr [JStr ''junk''])) = Inl ValueError"
    using safe_extract_json_segments [of "\<lambda>_. []" "JArr [JStr ''junk'']"] h2 by simp
  with h1 show ?thesis by simp
qed

section \<open>Applying the speaker-name mapping\<close>

text \<open>
  \<^verbatim>\<open>AudioProcessor._apply_speaker_name_mapping\<close>. The mapping is a Python dict whose
  keys are the speaker labels found in the segments; a key is looked up by Python's
  equality, under which \<^verbatim>\<open>True == 1\<close> and \<^verbatim>\<open>False == 0\<close>, and a list or a dict
  cannot be looked up at all (\<^verbatim>\<open>TypeError: unhashable type\<close>).
\<close>

fun hashable :: "json \<Rightarrow> bool" where
  "hashable (JArr _) = False"
| "hashable (JObj _) = False"
| "hashable _ = True"

fun key_number :: "json \<Rightarrow> real option" where
  "key_number (JBool b) = Some (if b then 1 else 0)"
| "key_number (JNum r) = Some r"
| "key_number _ = None"

definition py_key_eq :: "json \<Rightarrow> json \<Rightarrow> bool" where
  "py_key_eq a b =
     (case (key_number a, key_number b) of
        (Some x, Some y) \<Rightarrow> x = y
      | (None, None) \<Rightarrow> a = b
      | _ \<Rightarrow> False)"

fun mapping_lookup :: "(json \<times> json) list \<Rightarrow> json \<Rightarrow> json option" where
  "mapping_lookup [] k = None"
| "mapping_lookup ((k', v) # m) k = (if py_key_eq k' k then Some v else mapping_lookup m k)"

text \<open>The body of the loop, for one segment.\<close>

definition map_segment :: "(json \<times> json) list \<Rightarrow> json \<Rightarrow> py_error + json" where
  "map_segment speaker_mapping segment =
     (case segment of
        JObj d \<Rightarrow>
          (let speaker = dict_get d ''speaker'' (JStr '''')
           in if \<not> hashable speaker then Inl TypeError
              else (case mapping_lookup speaker_mapping speaker of
                      Some name \<Rightarrow> Inr (JObj (dict_set d ''speaker'' name))
                    | None \<Rightarrow> Inr (JObj d)))
      | _ \<Rightarrow> Inr segment)"

fun map_segments :: "(json \<times> json) list \<Rightarrow> json list \<Rightarrow> py_error + json list" where
  "map_segments speaker_mapping [] = Inr []"
| "map_segments speaker_mapping (segment # rest) =
     (case map_segment speaker_mapping segment of
        Inl e \<Rightarrow> Inl e
      | Inr updated_segment \<Rightarrow>
          (case map_segments speaker_mapping rest of
             Inl e \<Rightarrow> Inl e
           | Inr updated \<Rightarrow> Inr (updated_segment # updated)))"

definition apply_speaker_name_mapping ::
    "json list \<Rightarrow> (json \<times> json) list \<Rightarrow> py_error + json list" where
  "apply_speaker_name_mapping transcription speaker_mapping =
     (if speaker_mapping = [] then Inr transcription
      else map_segments speaker_mapping transcription)"

text \<open>
  What the frame property compares: the fields of a dict other than \<^verbatim>\<open>speaker\<close>, in
  their order.
\<close>

definition other_fields :: "pydict \<Rightarrow> pydict" where
  "other_fields d = filter (\<lambda>kv. fst kv \<noteq> ''speaker'') d"

fun unchanged_but_speaker :: "json \<Rightarrow> json \<Rightarrow> bool" where
  "unchanged_but_speaker (JObj d) (JObj d') = (other_fields d' = other_fields d)"
| "unchanged_but_speaker (JObj d) v' = False"
| "unchanged_but_speaker v v' = (v' = v)"

definition speaker_hashable :: "json \<Rightarrow> bool" where
  "speaker_hashable segment =
     (case segment of
        JObj d \<Rightarrow> hashable (dict_get d ''speaker'' (JStr ''''))
      | _ \<Rightarrow> True)"

subsection \<open>The frame of the mapping\<close>

lemma other_fields_dict_set:
  "other_fields (dict_set d ''speaker'' v) = other_fields d"
  by (induction d) (auto simp: other_fields_def)

lemma unchanged_but_speaker_refl: "unchanged_but_speaker v v"
  by (cases v) simp_all

lemma map_segment_frame:
  assumes "speaker_hashable segment"
  shows "\<exists>s. map_segment m segment = Inr s \<and> unchanged_but_speaker segment s"
proof (cases segment)
  case (JObj d)
  with assms have "hashable (dict_get d ''speaker'' (JStr ''''))"
    by (simp add: speaker_hashable_def)
  with JObj show ?thesis
    by (simp add: map_segment_def other_fields_dict_set split: option.splits)
qed (simp_all add: map_segment_def)

lemma map_segments_frame:
  assumes "list_all speaker_hashable transcription"
  shows "\<exists>out. map_segments m transcription = Inr out
           \<and> list_all2 unchanged_but_speaker transcription out"
  using assms
proof (induction transcription)
  case Nil
  then show ?case by simp
next
  case (Cons segment rest)
  then obtain s out where
    "map_segment m segment = Inr s" "unchanged_but_speaker segment s"
    "map_segments m rest = Inr out" "list_all2 unchanged_but_speaker rest out"
    using map_segment_frame [of segment m] by auto
  then show ?case by simp
qed

text \<open>
  \<^bold>\<open>C9\<close>, as amended. When the mapping is empty, or the speaker label of every dict
  segment is hashable (a string, a number, a boolean or \<^verbatim>\<open>None\<close>; a missing label
  counts as the empty string), applying the mapping returns a list with the same
  number of segments in the same order; a segment that is not a dict is returned as
  it is, and a dict segment keeps every field other than \<^verbatim>\<open>speaker\<close>.
\<close>

theorem apply_speaker_name_mapping_frame:
  assumes "speaker_mapping = [] \<or> list_all speaker_hashable transcription"
  shows "\<exists>out. apply_speaker_name_mapping transcription speaker_mapping = Inr out
           \<and> length out = length transcription
           \<and> (\<forall>i < length transcription. unchanged_but_speaker (transcription ! i) (out ! i))"
proof (cases "speaker_mapping = []")
  case True
  then show ?thesis
    by (simp add: apply_speaker_name_mapping_def unchanged_but_speaker_refl)
next
  case False
  with assms have "list_all speaker_hashable transcription" by simp
  from map_segments_frame [OF this, of speaker_mapping] False show ?thesis
    by (auto simp: apply_speaker_name_mapping_def list_all2_conv_all_nth)
qed

lemmas mapping_defs =
  apply_speaker_name_mapping_def map_segment_def dict_get_def py_key_eq_def
  speaker_hashable_def other_fields_def

theorem apply_speaker_name_mapping_frame_witness:
  "apply_speaker_name_mapping
     [JObj [(''start'', JNum 0), (''end'', JNum 2), (''text'', JStr ''hi''), (''speaker'', JStr ''speaker1'')],
      JStr ''noise'']
     [(JStr ''speaker1'', JStr ''Asha'')]
   = Inr [JObj [(''start'', JNum 0), (''end'', JNum 2), (''text'', JStr ''hi''), (''speaker'', JStr ''Asha'')],
          JStr ''noise'']
   \<and> list_all speaker_hashable
       [JObj [(''start'', JNum 0), (''end'', JNum 2), (''text'', JStr ''hi''), (''speaker'', JStr ''speaker1'')],
        JStr ''noise'']"
proof -
  have h: "list_all speaker_hashable
       [JObj [(''start'', JNum 0), (''end'', JNum 2), (''text'', JStr ''hi''), (''speaker'', JStr ''speaker1'')],
        JStr ''noise'']"
    by (simp add: mapping_defs)
  have e: "apply_speaker_name_mapping
     [JObj [(''start'', JNum 0), (''end'', JNum 2), (''text'', JStr ''hi''), (''speaker'', JStr ''speaker1'')],
      JStr ''noise'']
     [(JStr ''speaker1'', JStr ''Asha'')]
   = Inr [JObj [(''start'', JNum 0), (''end'', JNum 2), (''text'', JStr ''hi''), (''speaker'', JStr ''Asha'')],
          JStr ''noise'']"
    by (simp add: mapping_defs)
  from apply_speaker_name_mapping_frame [OF disjI2, OF h, of "[(JStr ''speaker1'', JStr ''Asha'')]"] e h
  show ?thesis by simp
qed

text \<open>
  The claim as it was stated, for every transcript and every mapping, fails: a dict
  segment whose speaker label is a list makes the membership test raise, and nothing
  is returned.
\<close>

theorem apply_speaker_name_mapping_counterexample:
  "apply_speaker_name_mapping
     [JObj [(''start'', JNum 0), (''end'', JNum 2), (''text'', JStr ''hi''), (''speaker'', JArr [])]]
     [(JStr ''speaker1'', JStr ''Asha'')]
   = Inl TypeError"
  by (simp add: mapping_defs)

section \<open>Action items\<close>

text \<open>
  The validation loop of \<^verbatim>\<open>AudioProcessor.extract_action_items\<close>, from the JSON array
  that \<^verbatim>\<open>json.loads\<close> returned. A method called on a value that is not a string
  (\<^verbatim>\<open>.strip()\<close>, \<^verbatim>\<open>.lower()\<close>) raises \<^verbatim>\<open>AttributeError\<close>; the function catches
  every exception of the loop and returns the empty list.
\<close>

text \<open>Sequencing of steps that may raise.\<close>

definition and_then :: "py_error + 'a \<Rightarrow> ('a \<Rightarrow> py_error + 'b) \<Rightarrow> py_error + 'b" where
  "and_then r f = (case r of Inl e \<Rightarrow> Inl e | Inr x \<Rightarrow> f x)"

text \<open>\<^verbatim>\<open>item.get("description", "").strip()\<close>\<close>

definition stripped_description :: "pydict \<Rightarrow> py_error + json" where
  "stripped_description item =
     (case dict_get item ''description'' (JStr '''') of
        JStr s \<Rightarrow> Inr (JStr (py_strip s))
      | _ \<Rightarrow> Inl AttributeError)"

text \<open>
  \<^verbatim>\<open>item.get(k) if item.get(k) and item.get(k).strip().lower() not in ["null", "none", ""] else None\<close>
\<close>

definition nullable_field :: "pydict \<Rightarrow> string \<Rightarrow> py_error + json" where
  "nullable_field item k =
     (let v = dict_get item k JNull
      in if truthy v then
           (case v of
              JStr s \<Rightarrow>
                Inr (if py_lower (py_strip s) \<notin> set [''null'', ''none'', ''''] then v else JNull)
            | _ \<Rightarrow> Inl AttributeError)
         else Inr JNull)"

text \<open>\<^verbatim>\<open>item.get(k, dflt).lower() if item.get(k) else dflt\<close>\<close>

definition lowered_field :: "pydict \<Rightarrow> string \<Rightarrow> string \<Rightarrow> py_error + string" where
  "lowered_field item k dflt =
     (if truthy (dict_get item k JNull) then
        (case dict_get item k (JStr dflt) of
           JStr s \<Rightarrow> Inr (py_lower s)
         | _ \<Rightarrow> Inl AttributeError)
      else Inr dflt)"

text \<open>One turn of the loop; \<open>Inr None\<close> is an item that is skipped.\<close>

definition clean_action_item :: "json \<Rightarrow> py_error + pydict option" where
  "clean_action_item item =
     (case item of
        JObj d \<Rightarrow>
          if map_of d ''description'' \<noteq> None then
            and_then (stripped_description d) (\<lambda>description.
            and_then (nullable_field d ''owner'') (\<lambda>owner.
            and_then (lowered_field d ''priority'' ''medium'') (\<lambda>priority.
            and_then (nullable_field d ''due_date'') (\<lambda>due_date.
            and_then (lowered_field d ''status'' ''pending'') (\<lambda>status.
              Inr (Some
                [(''description'', description),
                 (''owner'', owner),
                 (''priority'',
                    JStr (if priority \<notin> set [''high'', ''medium'', ''low''] then ''medium'' else priority)),
                 (''due_date'', due_date),
                 (''status'',
                    JStr (if status \<notin> set [''pending'', ''in_progress'', ''completed'']
                          then ''pending'' else status))]))))))
          else Inr None
      | _ \<Rightarrow> Inr None)"

fun clean_action_items :: "json list \<Rightarrow> py_error + pydict list" where
  "clean_action_items [] = Inr []"
| "clean_action_items (item # rest) =
     (case clean_action_item item of
        Inl e \<Rightarrow> Inl e
      | Inr c \<Rightarrow>
          (case clean_action_items rest of
             Inl e \<Rightarrow> Inl e
           | Inr cleaned_items \<Rightarrow>
               Inr (case c of None \<Rightarrow> cleaned_items | Some cleaned_item \<Rightarrow> cleaned_item # cleaned_items)))"

definition extract_action_items :: "json list \<Rightarrow> pydict list" where
  "extract_action_items action_items =
     (case clean_action_items action_items of
        Inl e \<Rightarrow> []
      | Inr cleaned_items \<Rightarrow> cleaned_items)"

subsection \<open>Which entries are kept, and with what priority and status\<close>

definition has_description :: "json \<Rightarrow> bool" where
  "has_description item = (case item of JObj d \<Rightarrow> map_of d ''description'' \<noteq> None | _ \<Rightarrow> False)"

text \<open>
  The value a kept entry gets for a field with a closed vocabulary, in the words of
  the amended claim: the model's string in lower case when that is an allowed word,
  the default otherwise.
\<close>

definition coerced :: "string list \<Rightarrow> string \<Rightarrow> json \<Rightarrow> string" where
  "coerced allowed dflt v =
     (case v of
        JStr s \<Rightarrow> if py_lower s \<in> set allowed then py_lower s else dflt
      | _ \<Rightarrow> dflt)"

definition cleaned_from :: "json \<Rightarrow> pydict \<Rightarrow> bool" where
  "cleaned_from item c =
     (case item of
        JObj d \<Rightarrow>
          map_of c ''priority'' =
            Some (JStr (coerced [''high'', ''medium'', ''low''] ''medium'' (dict_get d ''priority'' JNull)))
        \<and> map_of c ''status'' =
            Some (JStr (coerced [''pending'', ''in_progress'', ''completed''] ''pending''
                          (dict_get d ''status'' JNull)))
      | _ \<Rightarrow> False)"

lemma lowered_field_coerced:
  assumes "lowered_field d k dflt = Inr l" and "dflt \<in> set allowed" and "[] \<notin> set allowed"
  shows "(if l \<notin> set allowed then dflt else l) = coerced allowed dflt (dict_get d k JNull)"
proof (cases "map_of d k")
  case None
  with assms show ?thesis
    by (simp add: lowered_field_def dict_get_def coerced_def)
next
  case (Some v)
  with assms show ?thesis
    by (cases v) (auto simp: lowered_field_def dict_get_def coerced_def py_lower_def split: if_splits)
qed

lemma clean_action_item_dropped:
  "\<not> has_description item \<Longrightarrow> clean_action_item item = Inr None"
  by (cases item) (simp_all add: has_description_def clean_action_item_def)

lemma clean_action_item_kept:
  assumes "has_description item" and "clean_action_item item = Inr c"
  shows "\<exists>cleaned_item. c = Some cleaned_item \<and> cleaned_from item cleaned_item"
proof -
  from assms(1) obtain d where d: "item = JObj d" "map_of d ''description'' \<noteq> None"
    by (cases item) (simp_all add: has_description_def)
  with assms(2) obtain description owner priority due_date status where
    p: "lowered_field d ''priority'' ''medium'' = Inr priority"
    and s: "lowered_field d ''status'' ''pending'' = Inr status"
    and c: "c = Some
                 [(''description'', description),
                  (''owner'', owner),
                  (''priority'',
                     JStr (if priority \<notin> set [''high'', ''medium'', ''low''] then ''medium'' else priority)),
                  (''due_date'', due_date),
                  (''status'',
                     JStr (if status \<notin> set [''pending'', ''in_progress'', ''completed'']
                           then ''pending'' else status))]"
    by (auto simp: clean_action_item_def and_then_def split: sum.splits)
  have "(if priority \<notin> set [''high'', ''medium'', ''low''] then ''medium'' else priority)
          = coerced [''high'', ''medium'', ''low''] ''medium'' (dict_get d ''priority'' JNull)"
    by (rule lowered_field_coerced [OF p]) simp_all
  moreover
  have "(if status \<notin> set [''pending'', ''in_progress'', ''completed''] then ''pending'' else status)
          = coerced [''pending'', ''in_progress'', ''completed''] ''pending'' (dict_get d ''status'' JNull)"
    by (rule lowered_field_coerced [OF s]) simp_all
  ultimately show ?thesis
    unfolding c cleaned_from_def d(1) by simp
qed

lemma clean_action_items_kept:
  assumes "clean_action_items action_items = Inr cleaned_items"
  shows "list_all2 cleaned_from (filter has_description action_items) cleaned_items"
  using assms
proof (induction action_items arbitrary: cleaned_items)
  case Nil
  then show ?case by simp
next
  case (Cons item rest)
  from Cons.prems obtain c cs where
    c: "clean_action_item item = Inr c" and cs: "clean_action_items rest = Inr cs"
    and out: "cleaned_items = (case c of None \<Rightarrow> cs | Some x \<Rightarrow> x # cs)"
    by (auto split: sum.splits)
  have ih: "list_all2 cleaned_from (filter has_description rest) cs"
    by (rule Cons.IH [OF cs])
  show ?case
  proof (cases "has_description item")
    case True
    from clean_action_item_kept [OF True c] ih out True show ?thesis by auto
  next
    case False
    from clean_action_item_dropped [OF False] c ih out False show ?thesis by simp
  qed
qed

text \<open>
  The entries on which the loop raises nothing: in a dict with a description, the
  description is a string, and each of the other four fields is missing, falsy or a
  string.
\<close>

fun is_text :: "json \<Rightarrow> bool" where
  "is_text (JStr s) = True"
| "is_text v = False"

definition fields_are_text :: "json \<Rightarrow> bool" where
  "fields_are_text item =
     (case item of
        JObj d \<Rightarrow>
          map_of d ''description'' = None
        \<or> (is_text (dict_get d ''description'' (JStr ''''))
           \<and> list_all (\<lambda>k. \<not> truthy (dict_get d k JNull) \<or> is_text (dict_get d k JNull))
                 [''owner'', ''priority'', ''due_date'', ''status''])
      | _ \<Rightarrow> True)"

lemma is_text_conv: "is_text v \<longleftrightarrow> (\<exists>s. v = JStr s)"
  by (cases v) simp_all

lemma nullable_field_total:
  "\<not> truthy (dict_get d k JNull) \<or> is_text (dict_get d k JNull) \<Longrightarrow> \<exists>v. nullable_field d k = Inr v"
  by (auto simp: nullable_field_def Let_def is_text_conv)

lemma lowered_field_total:
  "\<not> truthy (dict_get d k JNull) \<or> is_text (dict_get d k JNull) \<Longrightarrow>
     \<exists>l. lowered_field d k dflt = Inr l"
  by (cases "map_of d k") (auto simp: lowered_field_def dict_get_def is_text_conv)

lemma clean_action_item_total:
  assumes "fields_are_text item"
  shows "\<exists>c. clean_action_item item = Inr c"
proof (cases "has_description item")
  case False
  then show ?thesis by (simp add: clean_action_item_dropped)
next
  case True
  then obtain d where d: "item = JObj d" "map_of d ''description'' \<noteq> None"
    by (cases item) (simp_all add: has_description_def)
  with assms have t: "is_text (dict_get d ''description'' (JStr ''''))"
    and f: "\<And>k. k \<in> set [''owner'', ''priority'', ''due_date'', ''status''] \<Longrightarrow>
              \<not> truthy (dict_get d k JNull) \<or> is_text (dict_get d k JNull)"
    by (auto simp: fields_are_text_def)
  from t obtain description where "stripped_description d = Inr description"
    by (auto simp: stripped_description_def is_text_conv)
  moreover obtain owner where "nullable_field d ''owner'' = Inr owner"
    using nullable_field_total [OF f, of "''owner''"] by auto
  moreover obtain priority where "lowered_field d ''priority'' ''medium'' = Inr priority"
    using lowered_field_total [OF f, of "''priority''"] by auto
  moreover obtain due_date where "nullable_field d ''due_date'' = Inr due_date"
    using nullable_field_total [OF f, of "''due_date''"] by auto
  moreover obtain status where "lowered_field d ''status'' ''pending'' = Inr status"
    using lowered_field_total [OF f, of "''status''"] by auto
  ultimately show ?thesis
    using d by (simp add: clean_action_item_def and_then_def)
qed

lemma clean_action_items_total:
  "list_all fields_are_text action_items \<Longrightarrow> \<exists>cleaned_items. clean_action_items action_items = Inr cleaned_items"
proof (induction action_items)
  case Nil
  then show ?case by simp
next
  case (Cons item rest)
  then obtain c cs where "clean_action_item item = Inr c" "clean_action_items rest = Inr cs"
    using clean_action_item_total [of item] by auto
  then show ?case by simp
qed

lemma extract_action_items_length:
  "length (extract_action_items action_items) \<le> length (filter has_description action_items)"
proof (cases "clean_action_items action_items")
  case (Inl e)
  then show ?thesis by (simp add: extract_action_items_def)
next
  case (Inr cleaned_items)
  from clean_action_items_kept [OF Inr] have "length cleaned_items = length (filter has_description action_items)"
    by (simp add: list_all2_lengthD)
  with Inr show ?thesis by (simp add: extract_action_items_def)
qed

text \<open>
  \<^bold>\<open>C5\<close>, as amended. No entry without a \<^verbatim>\<open>description\<close> is returned. Where the fields
  of the entries are strings (or missing, null or empty), the entries returned are
  those with a description, in their order, and each has for priority the model's
  value in lower case when that is one of high, medium, low, and medium otherwise;
  for status the model's value in lower case when that is one of pending,
  in_progress, completed, and pending otherwise.
\<close>

theorem extract_action_items_coercion:
  "length (extract_action_items action_items) \<le> length (filter has_description action_items)
   \<and> (list_all fields_are_text action_items \<longrightarrow>
        list_all2 cleaned_from (filter has_description action_items)
          (extract_action_items action_items))"
proof (intro conjI impI)
  show "length (extract_action_items action_items) \<le> length (filter has_description action_items)"
    by (rule extract_action_items_length)
next
  assume "list_all fields_are_text action_items"
  then obtain cleaned_items where c: "clean_action_items action_items = Inr cleaned_items"
    using clean_action_items_total by blast
  from clean_action_items_kept [OF c] c
  show "list_all2 cleaned_from (filter has_description action_items)
          (extract_action_items action_items)"
    by (simp add: extract_action_items_def)
qed

lemmas action_item_defs =
  extract_action_items_def clean_action_item_def and_then_def stripped_description_def
  nullable_field_def lowered_field_def dict_get_def py_lower_def lower_char_def
  py_strip_def ws1_def ws2_def ws3_def Let_def

theorem extract_action_items_coercion_witness:
  "list_all fields_are_text
     [JObj [(''description'', JStr '' Send report ''), (''priority'', JStr ''urgent'')],
      JObj [(''owner'', JStr ''Ravi'')],
      JStr ''x'']
   \<and> extract_action_items
     [JObj [(''description'', JStr '' Send report ''), (''priority'', JStr ''urgent'')],
      JObj [(''owner'', JStr ''Ravi'')],
      JStr ''x'']
   = [[(''description'', JStr ''Send report''), (''owner'', JNull), (''priority'', JStr ''medium''),
       (''due_date'', JNull), (''status'', JStr ''pending'')]]"
proof -
  have h: "list_all fields_are_text
     [JObj [(''description'', JStr '' Send report ''), (''priority'', JStr ''urgent'')],
      JObj [(''owner'', JStr ''Ravi'')],
      JStr ''x'']"
    by (simp add: fields_are_text_def dict_get_def)
  have e: "extract_action_items
     [JObj [(''description'', JStr '' Send report ''), (''priority'', JStr ''urgent'')],
      JObj [(''owner'', JStr ''Ravi'')],
      JStr ''x'']
   = [[(''description'', JStr ''Send report''), (''owner'', JNull), (''priority'', JStr ''medium''),
       (''due_date'', JNull), (''status'', JStr ''pending'')]]"
    by (simp add: action_item_defs)
  from extract_action_items_coercion
     [of "[JObj [(''description'', JStr '' Send report ''), (''priority'', JStr ''urgent'')],
           JObj [(''owner'', JStr ''Ravi'')],
           JStr ''x'']"] h e
  show ?thesis by simp
qed

text \<open>
  The claim as it was stated fails on a value that differs from an allowed word by
  its case: \<^verbatim>\<open>HIGH\<close> is not one of high, medium, low, and is kept as \<^verbatim>\<open>high\<close>, not
  coerced to medium; \<^verbatim>\<open>Completed\<close> is kept as \<^verbatim>\<open>completed\<close>, not coerced to pending.
\<close>

theorem extract_action_items_counterexample:
  "extract_action_items
     [JObj [(''description'', JStr ''Send report''), (''priority'', JStr ''HIGH''),
            (''status'', JStr ''Completed'')]]
   = [[(''description'', JStr ''Send report''), (''owner'', JNull), (''priority'', JStr ''high''),
       (''due_date'', JNull), (''status'', JStr ''completed'')]]
   \<and> ''HIGH'' \<notin> set [''high'', ''medium'', ''low'']
   \<and> ''Completed'' \<notin> set [''pending'', ''in_progress'', ''completed'']"
  by (simp add: action_item_defs)

section \<open>Timestamps and the derived duration\<close>

text \<open>
  A timestamp of the model's output is a number of seconds or a string
  \<^verbatim>\<open>SS.mmm\<close>, \<^verbatim>\<open>MM:SS.mmm\<close> or \<^verbatim>\<open>HH:MM:SS.mmm\<close>; a boolean is an \<^verbatim>\<open>int\<close> in Python,
  worth 1 or 0.
\<close>

fun split_on :: "char \<Rightarrow> string \<Rightarrow> string list" where
  "split_on sep [] = [[]]"
| "split_on sep (c # cs) =
     (if c = sep then [] # split_on sep cs
      else (case split_on sep cs of
              [] \<Rightarrow> [[c]]
            | part # parts \<Rightarrow> (c # part) # parts))"

definition float_of :: "py_float \<Rightarrow> string \<Rightarrow> py_error + real" where
  "float_of fl s = (case float_str fl s of None \<Rightarrow> Inl ValueError | Some r \<Rightarrow> Inr r)"

definition float_of_number :: "py_float \<Rightarrow> real \<Rightarrow> py_error + real" where
  "float_of_number fl x = (case float_num fl x of None \<Rightarrow> Inl OverflowError | Some r \<Rightarrow> Inr r)"

text \<open>
  \<^verbatim>\<open>float(hours) * 3600 + float(minutes) * 60 + float(seconds)\<close> and
  \<^verbatim>\<open>float(minutes) * 60 + float(seconds)\<close>, once the three strings are read: each
  product and each sum is rounded.
\<close>

definition hours_minutes_seconds :: "py_float \<Rightarrow> real \<Rightarrow> real \<Rightarrow> real \<Rightarrow> real" where
  "hours_minutes_seconds fl h m s = rnd fl (rnd fl (rnd fl (h * 3600) + rnd fl (m * 60)) + s)"

definition minutes_seconds :: "py_float \<Rightarrow> real \<Rightarrow> real \<Rightarrow> real" where
  "minutes_seconds fl m s = rnd fl (rnd fl (m * 60) + s)"

text \<open>The loop shared by the three duration functions, for one segment's \<^verbatim>\<open>end\<close>.\<close>

definition end_time_seconds :: "py_float \<Rightarrow> json \<Rightarrow> py_error + real option" where
  "end_time_seconds fl end_time =
     (case end_time of
        JNum r \<Rightarrow> Inr (Some r)
      | JBool b \<Rightarrow> Inr (Some (if b then 1 else 0))
      | JStr s \<Rightarrow>
          if CHR '':'' \<in> set s then
            (case split_on CHR '':'' s of
               [hours, minutes, seconds] \<Rightarrow>
                 and_then (float_of fl hours) (\<lambda>h.
                 and_then (float_of fl minutes) (\<lambda>m.
                 and_then (float_of fl seconds) (\<lambda>s.
                   Inr (Some (hours_minutes_seconds fl h m s)))))
             | [minutes, seconds] \<Rightarrow>
                 and_then (float_of fl minutes) (\<lambda>m.
                 and_then (float_of fl seconds) (\<lambda>s.
                   Inr (Some (minutes_seconds fl m s))))
             | _ \<Rightarrow> Inr None)
          else and_then (float_of fl s) (\<lambda>total_seconds. Inr (Some total_seconds))
      | _ \<Rightarrow> Inr None)"

text \<open>
  One turn of the loop: the end that is read, \<open>None\<close> for a segment that the loop
  passes over (it is not a dict, has no \<^verbatim>\<open>end\<close>, or its \<^verbatim>\<open>end\<close> is neither a number nor
  a string of one, two or three parts), or the exception of \<^verbatim>\<open>float\<close>.
\<close>

definition segment_end :: "py_float \<Rightarrow> json \<Rightarrow> py_error + real option" where
  "segment_end fl segment =
     (case segment of
        JObj d \<Rightarrow>
          (case map_of d ''end'' of
             Some end_time \<Rightarrow> end_time_seconds fl end_time
           | None \<Rightarrow> Inr None)
      | _ \<Rightarrow> Inr None)"

fun max_end_time :: "py_float \<Rightarrow> real \<Rightarrow> json list \<Rightarrow> py_error + real" where
  "max_end_time fl m [] = Inr m"
| "max_end_time fl m (segment # rest) =
     and_then (segment_end fl segment) (\<lambda>t.
       max_end_time fl (case t of None \<Rightarrow> m | Some total_seconds \<Rightarrow> max m total_seconds) rest)"

text \<open>
  \<^verbatim>\<open>BackgroundTranscriptionService._calculate_duration_from_transcription\<close>:
  \<^verbatim>\<open>math.ceil(max_end_time / 60)\<close>, at least one minute. An exception, also that of
  the division, ends in \<^verbatim>\<open>return None\<close>.
\<close>

definition calculate_duration_from_transcription :: "py_float \<Rightarrow> json list \<Rightarrow> int option" where
  "calculate_duration_from_transcription fl transcription =
     (if transcription = [] then None
      else (case max_end_time fl 0 transcription of
              Inl e \<Rightarrow> None
            | Inr m \<Rightarrow>
                if m > 0 then
                  (case divide fl m 60 of
                     None \<Rightarrow> None
                   | Some q \<Rightarrow> Some (max 1 \<lceil>q\<rceil>))
                else None))"

text \<open>\<^verbatim>\<open>int(x)\<close> on a float: truncation towards zero.\<close>

definition py_int :: "real \<Rightarrow> int" where
  "py_int x = (if x \<ge> 0 then \<lfloor>x\<rfloor> else \<lceil>x\<rceil>)"

text \<open>
  \<^verbatim>\<open>MobileAudioAnalytics._calculate_duration_from_transcript\<close>, and word for word
  \<^verbatim>\<open>FlatMeetingAnalytics._calculate_duration_from_transcript\<close> (where the line carries
  the comment \<^verbatim>\<open># Round up\<close>): \<^verbatim>\<open>int((max_end_time / 60) + 0.5)\<close>.
\<close>

definition calculate_duration_from_transcript :: "py_float \<Rightarrow> json list \<Rightarrow> int option" where
  "calculate_duration_from_transcript fl transcript =
     (if transcript = [] then None
      else (case max_end_time fl 0 transcript of
              Inl e \<Rightarrow> None
            | Inr m \<Rightarrow>
                (case divide fl m 60 of
                   None \<Rightarrow> None
                 | Some q \<Rightarrow>
                     (let duration_minutes = py_int (rnd fl (q + 1 / 2))
                      in if duration_minutes > 0 then Some duration_minutes else None))))"

text \<open>
  The first lines of \<^verbatim>\<open>extract_analytics\<close>, the same in both extractors: a duration
  that is not given, or is 0, is derived from the transcript.
\<close>

definition extract_analytics_duration :: "py_float \<Rightarrow> json list \<Rightarrow> int option \<Rightarrow> int option" where
  "extract_analytics_duration fl transcript duration_minutes =
     (if duration_minutes = None \<or> duration_minutes = Some 0
      then calculate_duration_from_transcript fl transcript
      else duration_minutes)"

text \<open>
  The duration in \<^verbatim>\<open>BackgroundTranscriptionService._process_meeting\<close>, the only caller
  of the extractors: the service derives it from the transcription, saves it to the
  meeting record when there is one (\<^verbatim>\<open>if duration_minutes:\<close>), and hands it with the
  same transcription to \<^verbatim>\<open>extract_analytics\<close>, which puts the duration it works with
  into the analytics record.
\<close>

record durations =
  saved_duration :: "int option"
  analytics_duration :: "int option"

definition process_meeting_durations :: "py_float \<Rightarrow> json list \<Rightarrow> durations" where
  "process_meeting_durations fl transcription =
     (let duration_minutes = calculate_duration_from_transcription fl transcription
      in \<lparr>saved_duration =
            (if duration_minutes = None \<or> duration_minutes = Some 0 then None else duration_minutes),
          analytics_duration = extract_analytics_duration fl transcription duration_minutes\<rparr>)"

text \<open>
  The duration in the words of the specification: the largest end, rounded up to
  the next whole minute, and at least one minute.
\<close>

definition rounded_up_minutes :: "real \<Rightarrow> int" where
  "rounded_up_minutes max_end = max 1 \<lceil>max_end / 60\<rceil>"

subsection \<open>The largest end\<close>

text \<open>
  The ends that the loop reads, in their order, and the largest of them. The loop
  raises when reading an end raises, and computes the largest end, or 0 when none
  is positive, otherwise.
\<close>

definition read_ends :: "py_float \<Rightarrow> json list \<Rightarrow> real list" where
  "read_ends fl transcription =
     concat (map (\<lambda>segment. case segment_end fl segment of
                               Inr (Some total_seconds) \<Rightarrow> [total_seconds]
                             | _ \<Rightarrow> [])
               transcription)"

definition largest_end :: "py_float \<Rightarrow> json list \<Rightarrow> real" where
  "largest_end fl transcription = Max (set (read_ends fl transcription))"

definition end_raises :: "py_float \<Rightarrow> json list \<Rightarrow> bool" where
  "end_raises fl transcription = list_ex (\<lambda>segment. isl (segment_end fl segment)) transcription"






subsection \<open>The background service rounds up, and its duration is the one that is used\<close>





lemmas duration_defs =
  Let_def process_meeting_durations_def extract_analytics_duration_def
  calculate_duration_from_transcription_def calculate_duration_from_transcript_def
  segment_end_def end_time_seconds_def and_then_def py_int_def rounded_up_minutes_def
  no_rounding_def read_ends_def largest_end_def end_raises_def



text \<open>
  The three cases of \<^verbatim>\<open>test_duration.py\<close>, with a \<^verbatim>\<open>float\<close> that reads the strings of
  the test.
\<close>

definition test_floats :: py_float where
  "test_floats =
     \<lparr>float_str = map_of [(''00'', 0), (''01'', 1), (''14.220'', 1422 / 100), (''30.000'', 30),
                          (''01.000'', 1)],
      float_num = Some, rnd = (\<lambda>x. x), divide = (\<lambda>x y. Some (x / y))\<rparr>"

lemma test_duration_calculation:
  "calculate_duration_from_transcription test_floats [JObj [(''end'', JStr ''00:00:14.220'')]] = Some 1"
  "calculate_duration_from_transcription test_floats [JObj [(''end'', JStr ''00:00:30.000'')]] = Some 1"
  "calculate_duration_from_transcription test_floats [JObj [(''end'', JStr ''00:01:01.000'')]] = Some 2"
  by (simp_all add: calculate_duration_from_transcription_def segment_end_def end_time_seconds_def
      and_then_def float_of_def hours_minutes_seconds_def test_floats_def)

text \<open>
  The extractors' own derivation rounds to the nearest minute: called on its own it
  gives 1 minute at 61.0 s and no duration at 14.0 s, where the background service
  gives 2 minutes and 1 minute. As the extractors are called with the duration of
  the background service, this derivation is reached only where that one found no
  duration.
\<close>

lemma calculate_duration_from_transcript_rounds_to_nearest:
  "calculate_duration_from_transcript no_rounding
     [JObj [(''start'', JNum 0), (''end'', JNum 61), (''text'', JStr ''hi''), (''speaker'', JStr ''A'')]]
     = Some 1
   \<and> calculate_duration_from_transcript no_rounding
     [JObj [(''start'', JNum 0), (''end'', JNum 14), (''text'', JStr ''hi''), (''speaker'', JStr ''A'')]]
     = None
   \<and> calculate_duration_from_transcription no_rounding
     [JObj [(''start'', JNum 0), (''end'', JNum 61), (''text'', JStr ''hi''), (''speaker'', JStr ''A'')]]
     = Some 2
   \<and> calculate_duration_from_transcription no_rounding
     [JObj [(''start'', JNum 0), (''end'', JNum 14), (''text'', JStr ''hi''), (''speaker'', JStr ''A'')]]
     = Some 1"
  by (simp add: duration_defs)

section \<open>Chunked transcription\<close>

subsection \<open>Splitting\<close>

text \<open>
  \<^verbatim>\<open>AudioProcessor.split_audio\<close> cuts an audio of \<open>len\<close> milliseconds into windows of
  \<^verbatim>\<open>AUDIO_OFFSET_CHUNK\<close> seconds (an environment variable read with \<^verbatim>\<open>int\<close>, 300 when
  unset), numbered from 0: \<^verbatim>\<open>enumerate(range(0, len(audio), chunk_duration_ms))\<close>.
  Each window is given here with its number and its bounds in milliseconds. An
  empty audio makes the source raise, and so does a window of no length (a division
  by zero); with a negative window the \<^verbatim>\<open>range\<close> is empty and no chunk is cut.
\<close>

definition split_audio :: "nat \<Rightarrow> int \<Rightarrow> py_error + (nat \<times> nat \<times> nat) list" where
  "split_audio len AUDIO_OFFSET_CHUNK =
     (let chunk_duration_ms = AUDIO_OFFSET_CHUNK * 1000
      in if len = 0 \<or> chunk_duration_ms = 0 then Inl GenericException
         else if chunk_duration_ms < 0 then Inr []
         else (let step = nat chunk_duration_ms
               in Inr (map (\<lambda>i. (i, i * step, min len (i * step + step)))
                         [0 ..< (len + step - 1) div step])))"

subsection \<open>Retries\<close>

text \<open>
  \<^verbatim>\<open>AudioProcessor.retry_with_backoff\<close>: \<open>func k\<close> is what the \<open>k\<close>-th call of the
  function does. The last failure is raised again; the delays between the calls
  are not modelled. With no attempt allowed the source ends in \<^verbatim>\<open>raise None\<close>, a
  \<^verbatim>\<open>TypeError\<close>.
\<close>

fun retry_from :: "nat \<Rightarrow> nat \<Rightarrow> (nat \<Rightarrow> py_error + 'a) \<Rightarrow> py_error + 'a" where
  "retry_from attempt 0 func = Inl TypeError"
| "retry_from attempt (Suc left) func =
     (case func attempt of
        Inr x \<Rightarrow> Inr x
      | Inl e \<Rightarrow> if left = 0 then Inl e else retry_from (Suc attempt) left func)"

definition retry_with_backoff :: "nat \<Rightarrow> (nat \<Rightarrow> py_error + 'a) \<Rightarrow> py_error + 'a" where
  "retry_with_backoff max_retries func = retry_from 0 max_retries func"

subsection \<open>One chunk\<close>

text \<open>
  \<^verbatim>\<open>AudioProcessor.transcribe_chunk\<close>. An attempt either fails before the model has
  answered (the chunk file is missing or empty, the model call fails after its own
  retries), or hands the parsed answer to \<^const>\<open>safe_extract_json\<close>. After the last
  retry the failure is swallowed: the chunk contributes the empty list.
\<close>

type_synonym attempts = "nat \<Rightarrow> py_error + (py_error + json)"

definition transcribe_chunk_internal ::
    "(json \<Rightarrow> string) \<Rightarrow> py_error + (py_error + json) \<Rightarrow> py_error + json list" where
  "transcribe_chunk_internal repr response = and_then response (safe_extract_json repr)"

definition transcribe_chunk ::
    "(json \<Rightarrow> string) \<Rightarrow> nat \<Rightarrow> nat \<Rightarrow> attempts \<Rightarrow> nat \<times> json list" where
  "transcribe_chunk repr max_retries idx responses =
     (case retry_with_backoff max_retries (\<lambda>k. transcribe_chunk_internal repr (responses k)) of
        Inr json_data \<Rightarrow> (idx, json_data)
      | Inl e \<Rightarrow> (idx, []))"

subsection \<open>Merging\<close>

text \<open>\<^verbatim>\<open>AudioProcessor.timestamp_to_seconds\<close>\<close>

definition timestamp_to_seconds :: "py_float \<Rightarrow> json \<Rightarrow> py_error + real" where
  "timestamp_to_seconds fl timestamp =
     (case timestamp of
        JNum r \<Rightarrow> float_of_number fl r
      | JBool b \<Rightarrow> Inr (if b then 1 else 0)
      | JStr s \<Rightarrow>
          if CHR '':'' \<in> set s then
            (case split_on CHR '':'' s of
               [hours, minutes, seconds] \<Rightarrow>
                 and_then (float_of fl hours) (\<lambda>h.
                 and_then (float_of fl minutes) (\<lambda>m.
                 and_then (float_of fl seconds) (\<lambda>s.
                   Inr (hours_minutes_seconds fl h m s))))
             | [minutes, seconds] \<Rightarrow>
                 and_then (float_of fl minutes) (\<lambda>m.
                 and_then (float_of fl seconds) (\<lambda>s.
                   Inr (minutes_seconds fl m s)))
             | _ \<Rightarrow> Inl ValueError)
          else float_of fl s
      | JNull \<Rightarrow> Inl TypeError
      | JArr xs \<Rightarrow> if JStr '':'' \<in> set xs then Inl AttributeError else Inl TypeError
      | JObj d \<Rightarrow> if map_of d '':'' \<noteq> None then Inl AttributeError else Inl TypeError)"

text \<open>
  The sum \<^verbatim>\<open>start_seconds + offset_seconds\<close> of a \<^verbatim>\<open>float\<close> and an \<^verbatim>\<open>int\<close>: the \<^verbatim>\<open>int\<close>
  is made a double, and the sum of the two doubles is rounded.
\<close>

definition float_plus_int :: "py_float \<Rightarrow> real \<Rightarrow> int \<Rightarrow> py_error + real" where
  "float_plus_int fl x n =
     and_then (float_of_number fl (of_int n)) (\<lambda>y. Inr (rnd fl (x + y)))"

text \<open>
  The body of the inner loop of \<^verbatim>\<open>merge_json_with_offset\<close>: a copy of the entry with
  both timestamps in seconds, moved by the offset.
\<close>

definition offset_entry :: "py_float \<Rightarrow> int \<Rightarrow> json \<Rightarrow> py_error + json" where
  "offset_entry fl offset_seconds entry =
     (case entry of
        JObj d \<Rightarrow>
          (case map_of d ''start'' of
             None \<Rightarrow> Inl KeyError
           | Some st \<Rightarrow>
               and_then (timestamp_to_seconds fl st) (\<lambda>start_seconds.
                 (case map_of d ''end'' of
                    None \<Rightarrow> Inl KeyError
                  | Some en \<Rightarrow>
                      and_then (timestamp_to_seconds fl en) (\<lambda>end_seconds.
                      and_then (float_plus_int fl start_seconds offset_seconds) (\<lambda>new_start.
                      and_then (float_plus_int fl end_seconds offset_seconds) (\<lambda>new_end.
                        Inr (JObj (dict_set (dict_set d ''start'' (JNum new_start))
                                     ''end'' (JNum new_end)))))))))
      | JArr xs \<Rightarrow> Inl TypeError
      | _ \<Rightarrow> Inl AttributeError)"

text \<open>An entry on which the body raises is skipped (\<^verbatim>\<open>except Exception: continue\<close>).\<close>

definition offset_chunk :: "py_float \<Rightarrow> int \<Rightarrow> json list \<Rightarrow> json list" where
  "offset_chunk fl offset_seconds json_array =
     List.map_filter
       (\<lambda>entry. case offset_entry fl offset_seconds entry of
                  Inl e \<Rightarrow> None
                | Inr new_entry \<Rightarrow> Some new_entry)
       json_array"

definition merge_json_with_offset ::
    "py_float \<Rightarrow> (nat \<times> json list) list \<Rightarrow> int \<Rightarrow> json list" where
  "merge_json_with_offset fl data time_offset =
     concat (map (\<lambda>(i, json_array). offset_chunk fl (int i * time_offset) json_array)
               (sort_key fst data))"

subsection \<open>All chunks\<close>

text \<open>
  \<^verbatim>\<open>AudioProcessor.transcribe_chunks\<close> on an audio of \<open>len\<close> milliseconds;
  \<open>responses idx\<close> are the model's answers on chunk \<open>idx\<close>. The dict \<^verbatim>\<open>results\<close> is
  keyed by the chunk number; the order in which the workers finish only decides its
  insertion order, which the sort of \<^const>\<open>merge_json_with_offset\<close> undoes. As
  \<^const>\<open>transcribe_chunk\<close> raises nothing, the handler around \<^verbatim>\<open>future.result()\<close>
  never runs, and as the merge raises nothing its fallback never runs either. The
  offset handed to the merge is the literal 300.
\<close>

definition merge_results :: "py_float \<Rightarrow> (nat \<times> json list) list \<Rightarrow> py_error + json list" where
  "merge_results fl results =
     (if results = [] then Inl GenericException
      else (let valid_results = filter (\<lambda>(k, v). v \<noteq> []) results
            in if valid_results = [] then Inr []
               else Inr (merge_json_with_offset fl valid_results 300)))"

definition transcribe_chunks ::
    "(json \<Rightarrow> string) \<Rightarrow> py_float \<Rightarrow> nat \<Rightarrow> nat \<Rightarrow> int \<Rightarrow> (nat \<Rightarrow> attempts)
       \<Rightarrow> py_error + json list" where
  "transcribe_chunks repr fl max_retries len AUDIO_OFFSET_CHUNK responses =
     and_then (split_audio len AUDIO_OFFSET_CHUNK) (\<lambda>chunks_dict.
       merge_results fl
         (map (\<lambda>(idx, chunk). transcribe_chunk repr max_retries idx (responses idx)) chunks_dict))"

text \<open>
  \<^verbatim>\<open>AudioProcessor.transcribe_with_gemini\<close>: an audio whose \<open>duration\<close> is at most 300
  seconds is one chunk, numbered 0 and not merged.
\<close>

definition transcribe_with_gemini ::
    "(json \<Rightarrow> string) \<Rightarrow> py_float \<Rightarrow> nat \<Rightarrow> real \<Rightarrow> nat \<Rightarrow> int \<Rightarrow> (nat \<Rightarrow> attempts)
       \<Rightarrow> py_error + json list" where
  "transcribe_with_gemini repr fl max_retries duration len AUDIO_OFFSET_CHUNK responses =
     (if duration \<le> 300 then Inr (snd (transcribe_chunk repr max_retries 0 (responses 0)))
      else transcribe_chunks repr fl max_retries len AUDIO_OFFSET_CHUNK responses)"

lemmas transcribe_defs =
  transcribe_chunks_def split_audio_def merge_results_def merge_json_with_offset_def
  offset_chunk_def offset_entry_def timestamp_to_seconds_def transcribe_chunk_def
  transcribe_chunk_internal_def retry_with_backoff_def and_then_def float_of_def
  float_of_number_def float_plus_int_def no_rounding_def Let_def

subsection \<open>Retries and failed chunks\<close>

lemma retry_from_all_fail:
  "left > 0 \<Longrightarrow> (\<forall>k < left. \<exists>e. func (attempt + k) = Inl e) \<Longrightarrow>
     \<exists>e. retry_from attempt left func = Inl e"
proof (induction left arbitrary: attempt)
  case 0
  then show ?case by simp
next
  case (Suc left)
  from Suc.prems(2) obtain e where e: "func attempt = Inl e" by force
  show ?case
  proof (cases "left = 0")
    case True
    with e show ?thesis by simp
  next
    case False
    have "\<forall>k < left. \<exists>e. func (Suc attempt + k) = Inl e"
    proof (intro allI impI)
      fix k assume "k < left"
      then have "Suc k < Suc left" by simp
      with Suc.prems(2) have "\<exists>e. func (attempt + Suc k) = Inl e" by blast
      then show "\<exists>e. func (Suc attempt + k) = Inl e" by simp
    qed
    with Suc.IH [of "Suc attempt"] False e show ?thesis by simp
  qed
qed

lemma safe_extract_json_nonempty:
  "safe_extract_json repr parsed \<noteq> Inr []"
  by (auto simp: safe_extract_json_def Let_def split: sum.splits)

lemma transcribe_chunk_internal_nonempty:
  "transcribe_chunk_internal repr response \<noteq> Inr []"
  by (cases response) (simp_all add: transcribe_chunk_internal_def and_then_def safe_extract_json_nonempty)

lemma transcribe_chunk_idx [simp]:
  "fst (transcribe_chunk repr max_retries idx responses) = idx"
  by (simp add: transcribe_chunk_def split: sum.splits)

text \<open>A chunk fails when each of its attempts raises.\<close>

definition chunk_fails :: "(json \<Rightarrow> string) \<Rightarrow> nat \<Rightarrow> attempts \<Rightarrow> bool" where
  "chunk_fails repr max_retries responses =
     list_all (\<lambda>k. isl (transcribe_chunk_internal repr (responses k))) [0 ..< max_retries]"

lemma failed_chunk_is_empty:
  assumes "chunk_fails repr max_retries responses"
  shows "snd (transcribe_chunk repr max_retries idx responses) = []"
proof (cases "max_retries = 0")
  case True
  then show ?thesis by (simp add: transcribe_chunk_def retry_with_backoff_def)
next
  case False
  from assms have "\<forall>k < max_retries. \<exists>e. transcribe_chunk_internal repr (responses (0 + k)) = Inl e"
    by (auto simp: chunk_fails_def list_all_iff isl_def)
  with False have "\<exists>e. retry_from 0 max_retries (\<lambda>k. transcribe_chunk_internal repr (responses k)) = Inl e"
    by (intro retry_from_all_fail) simp_all
  then show ?thesis by (auto simp: transcribe_chunk_def retry_with_backoff_def)
qed

lemma split_audio_returns:
  assumes "len > 0" and "AUDIO_OFFSET_CHUNK > 0"
  shows "\<exists>chunks_dict. split_audio len AUDIO_OFFSET_CHUNK = Inr chunks_dict \<and> chunks_dict \<noteq> []
           \<and> map fst chunks_dict = [0 ..< length chunks_dict]"
proof -
  let ?d = "nat (AUDIO_OFFSET_CHUNK * 1000)"
  have d: "?d > 0" using assms(2) by simp
  have "len + ?d - 1 \<ge> ?d" using assms(1) by simp
  then have "(len + ?d - 1) div ?d \<ge> 1"
    using d by (metis div_greater_zero_iff less_eq_Suc_le One_nat_def)
  then have "[0 ..< (len + ?d - 1) div ?d] \<noteq> []" by simp
  with assms show ?thesis
    by (simp add: split_audio_def Let_def comp_def)
qed

text \<open>
  \<^bold>\<open>C3\<close>, as amended. On an audio that can be split, the transcription of the chunks
  raises nothing: it returns a transcript, also when every chunk has failed after
  its retries, and then the transcript is empty.
\<close>

theorem transcribe_chunks_all_failed:
  assumes "len > 0" and "AUDIO_OFFSET_CHUNK > 0"
  shows "\<exists>chunks_dict transcript.
           split_audio len AUDIO_OFFSET_CHUNK = Inr chunks_dict
         \<and> transcribe_chunks repr fl max_retries len AUDIO_OFFSET_CHUNK responses = Inr transcript
         \<and> ((\<forall>c \<in> set chunks_dict. chunk_fails repr max_retries (responses (fst c))) \<longrightarrow>
              transcript = [])"
proof -
  from split_audio_returns [OF assms] obtain chunks_dict where
    s: "split_audio len AUDIO_OFFSET_CHUNK = Inr chunks_dict" and ne: "chunks_dict \<noteq> []"
    by blast
  let ?results = "map (\<lambda>(idx, chunk). transcribe_chunk repr max_retries idx (responses idx)) chunks_dict"
  have r: "transcribe_chunks repr fl max_retries len AUDIO_OFFSET_CHUNK responses
             = merge_results fl ?results"
    by (simp add: transcribe_chunks_def s and_then_def)
  have nr: "?results \<noteq> []" using ne by simp
  then have "\<exists>transcript. merge_results fl ?results = Inr transcript"
    by (simp add: merge_results_def Let_def)
  then obtain transcript where t: "merge_results fl ?results = Inr transcript" ..
  have "transcript = []" if f: "\<forall>c \<in> set chunks_dict. chunk_fails repr max_retries (responses (fst c))"
  proof -
    have "snd (transcribe_chunk repr max_retries (fst c) (responses (fst c))) = []"
      if "c \<in> set chunks_dict" for c
      using that f by (simp add: failed_chunk_is_empty)
    then have "filter (\<lambda>(k, v). v \<noteq> []) ?results = []"
      by (simp add: filter_empty_conv case_prod_unfold)
    with nr t show ?thesis
      by (simp add: merge_results_def Let_def)
  qed
  with s r t show ?thesis by simp
qed

theorem transcribe_chunks_all_failed_witness:
  "(0::nat) < 600000 \<and> (0::int) < 300
   \<and> chunk_fails (\<lambda>_. []) 3 (\<lambda>_. Inl GenericException)
   \<and> chunk_fails (\<lambda>_. []) 3 (\<lambda>_. Inr (Inl ValueError))
   \<and> transcribe_chunks (\<lambda>_. []) no_rounding 3 600000 300
       (\<lambda>idx. if idx = 0 then (\<lambda>_. Inl GenericException) else (\<lambda>_. Inr (Inl ValueError)))
     = Inr []"
proof -
  have c: "chunk_fails (\<lambda>_. []) 3 (\<lambda>_. Inl GenericException)"
          "chunk_fails (\<lambda>_. []) 3 (\<lambda>_. Inr (Inl ValueError))"
    by (simp_all add: chunk_fails_def transcribe_chunk_internal_def and_then_def safe_extract_json_def
        list_all_iff)
  have p1: "(0::nat) < 600000" and p2: "(0::int) < 300" by simp_all
  from transcribe_chunks_all_failed
      [OF p1 p2, where repr = "\<lambda>_. []" and fl = no_rounding and max_retries = 3
         and responses = "\<lambda>idx. if idx = 0 then (\<lambda>_. Inl GenericException)
                                 else (\<lambda>_. Inr (Inl ValueError))"]
  obtain chunks_dict :: "(nat \<times> nat \<times> nat) list" and transcript where
    t: "transcribe_chunks (\<lambda>_. []) no_rounding 3 600000 300
          (\<lambda>idx. if idx = 0 then (\<lambda>_. Inl GenericException) else (\<lambda>_. Inr (Inl ValueError)))
        = Inr transcript"
    and e: "(\<forall>c \<in> set chunks_dict. chunk_fails (\<lambda>_. []) 3
               (if fst c = 0 then (\<lambda>_. Inl GenericException) else (\<lambda>_. Inr (Inl ValueError))))
            \<longrightarrow> transcript = []"
    by blast
  from c e have "transcript = []" by simp
  with t have "transcribe_chunks (\<lambda>_. []) no_rounding 3 600000 300
       (\<lambda>idx. if idx = 0 then (\<lambda>_. Inl GenericException) else (\<lambda>_. Inr (Inl ValueError)))
     = Inr []"
    by simp
  with c show ?thesis by simp
qed

text \<open>
  The claim as it was stated, an error when every chunk fails, does not hold: with
  two chunks that fail on each of the three attempts the result is the empty
  transcript, not an exception.
\<close>

theorem transcribe_chunks_counterexample:
  "transcribe_chunks (\<lambda>_. []) no_rounding 3 600000 300
       (\<lambda>idx. if idx = 0 then (\<lambda>_. Inl GenericException) else (\<lambda>_. Inr (Inl ValueError)))
     = Inr []
   \<and> chunk_fails (\<lambda>_. []) 3 (\<lambda>_. Inl GenericException)
   \<and> chunk_fails (\<lambda>_. []) 3 (\<lambda>_. Inr (Inl ValueError))"
  by (simp add: transcribe_defs extract_defs chunk_fails_def upt_rec numeral_3_eq_3)

subsection \<open>What the merge does to the timestamps\<close>

text \<open>
  The two timestamps of an entry as the model gave them, in seconds (when both can
  be read), the two timestamps of an entry of chunk \<open>i\<close> after the merge has moved
  them by \<open>offset_seconds\<close>, and the two timestamps stored in a merged segment.
\<close>

definition chunk_times :: "py_float \<Rightarrow> json \<Rightarrow> (real \<times> real) option" where
  "chunk_times fl entry =
     (case entry of
        JObj d \<Rightarrow>
          (case (map_of d ''start'', map_of d ''end'') of
             (Some st, Some en) \<Rightarrow>
               (case (timestamp_to_seconds fl st, timestamp_to_seconds fl en) of
                  (Inr s, Inr e) \<Rightarrow> Some (s, e)
                | _ \<Rightarrow> None)
           | _ \<Rightarrow> None)
      | _ \<Rightarrow> None)"

definition merged_times :: "py_float \<Rightarrow> int \<Rightarrow> json \<Rightarrow> (real \<times> real) option" where
  "merged_times fl offset_seconds entry =
     (case chunk_times fl entry of
        None \<Rightarrow> None
      | Some t \<Rightarrow>
          (case float_num fl (of_int offset_seconds) of
             None \<Rightarrow> None
           | Some y \<Rightarrow> Some (rnd fl (fst t + y), rnd fl (snd t + y))))"

definition stored_times :: "json \<Rightarrow> (real \<times> real) option" where
  "stored_times segment =
     (case segment of
        JObj d \<Rightarrow>
          (case (map_of d ''start'', map_of d ''end'') of
             (Some (JNum s), Some (JNum e)) \<Rightarrow> Some (s, e)
           | _ \<Rightarrow> None)
      | _ \<Rightarrow> None)"

lemma offset_entry_times:
  "case merged_times fl off entry of
     None \<Rightarrow> isl (offset_entry fl off entry)
   | Some t \<Rightarrow> \<exists>segment. offset_entry fl off entry = Inr segment
                   \<and> stored_times segment = Some t
                   \<and> speaker_hashable segment = speaker_hashable entry"
proof (cases entry)
  case (JObj d)
  show ?thesis
  proof (cases "map_of d ''start''")
    case None
    with JObj show ?thesis by (simp add: merged_times_def chunk_times_def offset_entry_def)
  next
    case st: (Some st)
    show ?thesis
    proof (cases "timestamp_to_seconds fl st")
      case (Inl e)
      with JObj st show ?thesis
        by (simp add: merged_times_def chunk_times_def offset_entry_def and_then_def split: option.splits)
    next
      case s: (Inr s)
      show ?thesis
      proof (cases "map_of d ''end''")
        case None
        with JObj st s show ?thesis
          by (simp add: merged_times_def chunk_times_def offset_entry_def and_then_def)
      next
        case en: (Some en)
        show ?thesis
        proof (cases "timestamp_to_seconds fl en")
          case (Inl e)
          with JObj st s en show ?thesis
            by (simp add: merged_times_def chunk_times_def offset_entry_def and_then_def)
        next
          case e: (Inr e)
          show ?thesis
          proof (cases "float_num fl (of_int off)")
            case None
            with JObj st s en e show ?thesis
              by (simp add: merged_times_def chunk_times_def offset_entry_def and_then_def
                  float_plus_int_def float_of_number_def)
          next
            case (Some y)
            with JObj st s en e show ?thesis
              by (simp add: merged_times_def chunk_times_def offset_entry_def and_then_def
                  float_plus_int_def float_of_number_def stored_times_def map_of_dict_set
                  speaker_hashable_def dict_get_def)
          qed
        qed
      qed
    qed
  qed
qed (simp_all add: merged_times_def chunk_times_def offset_entry_def)

lemma offset_chunk_times:
  "map stored_times (offset_chunk fl off json_array)
     = map Some (List.map_filter (merged_times fl off) json_array)"
  "list_all speaker_hashable json_array \<Longrightarrow> list_all speaker_hashable (offset_chunk fl off json_array)"
proof (induction json_array)
  case Nil
  {
    case 1
    show ?case by (simp add: offset_chunk_def)
  next
    case 2
    show ?case by (simp add: offset_chunk_def)
  }
next
  case (Cons entry rest)
  {
    case 1
    have ih: "map stored_times (List.map_filter
                (\<lambda>entry. case offset_entry fl off entry of Inl e \<Rightarrow> None | Inr n \<Rightarrow> Some n) rest)
              = map Some (List.map_filter (merged_times fl off) rest)"
      using Cons.IH(1) by (simp add: offset_chunk_def)
    show ?case
    proof (cases "merged_times fl off entry")
      case None
      with offset_entry_times [where fl = fl and entry = entry and off = off]
      obtain e where "offset_entry fl off entry = Inl e"
        by (auto simp: isl_def)
      with None ih show ?thesis by (simp add: offset_chunk_def)
    next
      case (Some t)
      with offset_entry_times [where fl = fl and entry = entry and off = off]
      obtain segment where
        "offset_entry fl off entry = Inr segment" "stored_times segment = Some t"
        by auto
      with Some ih show ?thesis by (simp add: offset_chunk_def)
    qed
  next
    case 2
    then have h: "speaker_hashable entry" and r: "list_all speaker_hashable rest" by simp_all
    have ih: "list_all speaker_hashable (List.map_filter
                (\<lambda>entry. case offset_entry fl off entry of Inl e \<Rightarrow> None | Inr n \<Rightarrow> Some n) rest)"
      using Cons.IH(2) [OF r] by (simp add: offset_chunk_def)
    show ?case
    proof (cases "merged_times fl off entry")
      case None
      with offset_entry_times [where fl = fl and entry = entry and off = off]
      obtain e where "offset_entry fl off entry = Inl e"
        by (auto simp: isl_def)
      with ih show ?thesis by (simp add: offset_chunk_def)
    next
      case (Some t)
      with offset_entry_times [where fl = fl and entry = entry and off = off]
      obtain segment where
        "offset_entry fl off entry = Inr segment" "speaker_hashable segment = speaker_hashable entry"
        by auto
      with h ih show ?thesis by (simp add: offset_chunk_def)
    qed
  }
qed

lemma merge_json_with_offset_times:
  "map stored_times (merge_json_with_offset fl data time_offset)
     = map Some (concat (map (\<lambda>c. List.map_filter (merged_times fl (int (fst c) * time_offset)) (snd c))
                          (sort_key fst data)))"
  by (simp add: merge_json_with_offset_def map_concat comp_def case_prod_unfold offset_chunk_times(1))

lemma merge_json_with_offset_hashable:
  assumes "\<forall>c \<in> set data. list_all speaker_hashable (snd c)"
  shows "list_all speaker_hashable (merge_json_with_offset fl data time_offset)"
proof -
  have "list_all speaker_hashable (offset_chunk fl (int (fst c) * time_offset) (snd c))"
    if "c \<in> set data" for c
    using assms that by (intro offset_chunk_times(2)) simp
  then show ?thesis
    by (simp add: merge_json_with_offset_def list_all_iff case_prod_unfold)
qed

subsection \<open>The transcript of the chunks\<close>

text \<open>
  The numbers of the chunks that the split cuts, and what the transcription of the
  chunks returns: the chunks follow each other by their numbers, and a chunk gives
  those entries of its answer whose timestamps can be read, in the order of the
  answer, with the timestamps moved by 300 seconds for each chunk before it.
\<close>

definition chunk_numbers :: "nat \<Rightarrow> int \<Rightarrow> nat list" where
  "chunk_numbers len AUDIO_OFFSET_CHUNK =
     (case split_audio len AUDIO_OFFSET_CHUNK of
        Inl e \<Rightarrow> []
      | Inr chunks_dict \<Rightarrow> map fst chunks_dict)"


lemma in_concat_map:
  "x \<in> set (concat (map f xs)) \<Longrightarrow> \<exists>c \<in> set xs. x \<in> set (f c)"
  by auto

lemma concat_map_filter_nonempty:
  assumes "\<And>c. c \<in> set xs \<Longrightarrow> \<not> P c \<Longrightarrow> f c = []"
  shows "concat (map f (filter P xs)) = concat (map f xs)"
  using assms by (induction xs) auto

lemma merge_results_times:
  assumes keys: "sorted_wrt (<) (map fst results)"
    and ne: "results \<noteq> []"
  shows "\<exists>transcript. merge_results fl results = Inr transcript
           \<and> map stored_times transcript
               = map Some (concat (map (\<lambda>c. List.map_filter (merged_times fl (int (fst c) * 300)) (snd c))
                                     results))
           \<and> ((\<forall>c \<in> set results. list_all speaker_hashable (snd c)) \<longrightarrow>
                list_all speaker_hashable transcript)"
proof -
  let ?valid = "filter (\<lambda>(k, v). v \<noteq> []) results"
  let ?f = "\<lambda>c. List.map_filter (merged_times fl (int (fst c) * 300)) (snd c)"
  have "sorted_wrt (<) (map fst ?valid)"
    using keys by (simp add: sorted_wrt_map sorted_wrt_filter)
  then have "sorted (map fst ?valid)"
    by (rule sorted_wrt_mono_rel [rotated]) simp
  then have id: "sort_key fst ?valid = ?valid" by (rule sort_key_id_if_sorted)
  have "concat (map ?f (filter (\<lambda>c. snd c \<noteq> []) results)) = concat (map ?f results)"
    by (rule concat_map_filter_nonempty) simp
  then have all: "concat (map ?f ?valid) = concat (map ?f results)"
    by (simp add: case_prod_unfold)
  have m: "map stored_times (merge_json_with_offset fl ?valid 300) = map Some (concat (map ?f results))"
    by (simp only: merge_json_with_offset_times id all)
  have h: "list_all speaker_hashable (merge_json_with_offset fl ?valid 300)"
    if "\<forall>c \<in> set results. list_all speaker_hashable (snd c)"
    using that by (intro merge_json_with_offset_hashable) simp
  show ?thesis
  proof (cases "?valid = []")
    case True
    with all have "concat (map ?f results) = []" by simp
    moreover from True ne have "merge_results fl results = Inr []" by (simp add: merge_results_def)
    ultimately show ?thesis by simp
  next
    case False
    with ne have "merge_results fl results = Inr (merge_json_with_offset fl ?valid 300)"
      by (simp add: merge_results_def)
    with m h show ?thesis by simp
  qed
qed

lemma transcribe_chunks_times:
  assumes "len > 0" and "AUDIO_OFFSET_CHUNK > 0"
  shows "\<exists>transcript.
           transcribe_chunks repr fl max_retries len AUDIO_OFFSET_CHUNK responses = Inr transcript
         \<and> map stored_times transcript
             = map Some (concat (map (\<lambda>i. List.map_filter (merged_times fl (int i * 300))
                                            (snd (transcribe_chunk repr max_retries i (responses i))))
                                   (chunk_numbers len AUDIO_OFFSET_CHUNK)))
         \<and> ((\<forall>i \<in> set (chunk_numbers len AUDIO_OFFSET_CHUNK).
                list_all speaker_hashable (snd (transcribe_chunk repr max_retries i (responses i)))) \<longrightarrow>
              list_all speaker_hashable transcript)"
proof -
  from split_audio_returns [OF assms] obtain chunks_dict where
    s: "split_audio len AUDIO_OFFSET_CHUNK = Inr chunks_dict" and ne: "chunks_dict \<noteq> []"
    and idx: "map fst chunks_dict = [0 ..< length chunks_dict]"
    by blast
  let ?results = "map (\<lambda>(idx, chunk). transcribe_chunk repr max_retries idx (responses idx)) chunks_dict"
  have r: "transcribe_chunks repr fl max_retries len AUDIO_OFFSET_CHUNK responses
             = merge_results fl ?results"
    by (simp add: transcribe_chunks_def s and_then_def)
  have "map fst ?results = map fst chunks_dict"
    by (simp add: comp_def case_prod_unfold)
  with idx have keys: "sorted_wrt (<) (map fst ?results)" by simp
  have nr: "?results \<noteq> []" using ne by simp
  have c: "concat (map (\<lambda>c. List.map_filter (merged_times fl (int (fst c) * 300)) (snd c)) ?results)
         = concat (map (\<lambda>i. List.map_filter (merged_times fl (int i * 300))
                              (snd (transcribe_chunk repr max_retries i (responses i))))
                     (chunk_numbers len AUDIO_OFFSET_CHUNK))"
    by (simp add: chunk_numbers_def s comp_def case_prod_unfold)
  have h: "\<forall>c \<in> set ?results. list_all speaker_hashable (snd c)"
    if "\<forall>i \<in> set (chunk_numbers len AUDIO_OFFSET_CHUNK).
          list_all speaker_hashable (snd (transcribe_chunk repr max_retries i (responses i)))"
    using that by (auto simp: case_prod_unfold chunk_numbers_def s)
  from merge_results_times [OF keys nr, where fl = fl] h show ?thesis
    unfolding r c by blast
qed

text \<open>
  Conversely the transcription of the chunks returns only on an audio that the
  split has cut into at least one chunk.
\<close>

lemma transcribe_chunks_returns:
  assumes "transcribe_chunks repr fl max_retries len AUDIO_OFFSET_CHUNK responses = Inr transcript"
  shows "len > 0 \<and> AUDIO_OFFSET_CHUNK > 0"
proof -
  from assms obtain chunks_dict where
    s: "split_audio len AUDIO_OFFSET_CHUNK = Inr chunks_dict"
    and m: "merge_results fl
              (map (\<lambda>(idx, chunk). transcribe_chunk repr max_retries idx (responses idx)) chunks_dict)
            = Inr transcript"
    by (auto simp: transcribe_chunks_def and_then_def split: sum.splits)
  from m have "chunks_dict \<noteq> []" by (auto simp: merge_results_def)
  with s show ?thesis
    by (auto simp: split_audio_def Let_def split: if_splits)
qed

subsection \<open>When the merged transcript is in order\<close>

text \<open>
  A chunk whose answer is in order: of the entries whose timestamps can be read,
  the starts ascend and lie in the first 300 seconds, and each end is after its
  start.
\<close>

definition good_chunk :: "py_float \<Rightarrow> json list \<Rightarrow> bool" where
  "good_chunk fl json_array =
     (let ts = List.map_filter (chunk_times fl) json_array
      in sorted (map fst ts) \<and> list_all (\<lambda>t. 0 \<le> fst t \<and> fst t \<le> 300 \<and> fst t < snd t) ts)"

text \<open>
  What the order of the merged transcript needs of the doubles: rounding is
  monotone, and the offsets of the chunks (whole numbers, far below \<open>2\<^sup>5\<^sup>3\<close>) are
  doubles.
\<close>

definition offsets_exact :: "py_float \<Rightarrow> nat list \<Rightarrow> bool" where
  "offsets_exact fl numbers =
     ((\<forall>x y. x \<le> y \<longrightarrow> rnd fl x \<le> rnd fl y)
      \<and> list_all (\<lambda>i. float_num fl (real i * 300) = Some (real i * 300)) numbers)"






subsection \<open>The offset of the merge and the length of the chunks\<close>

text \<open>
  The time in the recording of a moment \<open>t\<close> seconds into chunk \<open>i\<close>, in the words of
  the specification: the chunk begins \<open>i\<close> chunk durations into the recording.
\<close>

definition recording_relative :: "int \<Rightarrow> nat \<Rightarrow> real \<Rightarrow> real" where
  "recording_relative chunk_duration_seconds i t = t + real i * real_of_int chunk_duration_seconds"

text \<open>
  What the code adds is \<open>i\<close> times 300, whatever the duration the audio was split
  with: each merged segment stores the two timestamps of an entry of some chunk
  \<open>i\<close>, moved by \<open>300 i\<close> (and rounded, where the sum is not a double).
\<close>

lemma transcribe_chunks_offset:
  assumes "transcribe_chunks repr fl max_retries len AUDIO_OFFSET_CHUNK responses = Inr transcript"
    and "segment \<in> set transcript"
  shows "\<exists>i entry t y. entry \<in> set (snd (transcribe_chunk repr max_retries i (responses i)))
           \<and> chunk_times fl entry = Some t
           \<and> float_num fl (real i * 300) = Some y
           \<and> stored_times segment = Some (rnd fl (fst t + y), rnd fl (snd t + y))"
proof -
  from transcribe_chunks_returns [OF assms(1)] have "len > 0" "AUDIO_OFFSET_CHUNK > 0" by simp_all
  from transcribe_chunks_times [OF this, where repr = repr and fl = fl and max_retries = max_retries
      and responses = responses] assms(1)
  have m: "map stored_times transcript
             = map Some (concat (map (\<lambda>i. List.map_filter (merged_times fl (int i * 300))
                                            (snd (transcribe_chunk repr max_retries i (responses i))))
                                   (chunk_numbers len AUDIO_OFFSET_CHUNK)))"
    by simp
  let ?T = "concat (map (\<lambda>i. List.map_filter (merged_times fl (int i * 300))
                              (snd (transcribe_chunk repr max_retries i (responses i))))
                     (chunk_numbers len AUDIO_OFFSET_CHUNK))"
  from assms(2) have "stored_times segment \<in> set (map stored_times transcript)" by simp
  then have "stored_times segment \<in> Some ` set ?T" unfolding m by simp
  then obtain x where x: "x \<in> set ?T" and sx: "stored_times segment = Some x" by blast
  from in_concat_map [OF x] obtain i where
    xi: "x \<in> set (List.map_filter (merged_times fl (int i * 300))
                    (snd (transcribe_chunk repr max_retries i (responses i))))"
    by blast
  then obtain entry where e: "entry \<in> set (snd (transcribe_chunk repr max_retries i (responses i)))"
    and mt: "merged_times fl (int i * 300) entry = Some x"
    by (auto simp: List.map_filter_def)
  from mt obtain t y where "chunk_times fl entry = Some t" "float_num fl (real i * 300) = Some y"
    "x = (rnd fl (fst t + y), rnd fl (snd t + y))"
    by (auto simp: merged_times_def split: option.splits)
  with e sx show ?thesis by blast
qed

text \<open>
  \<^bold>\<open>C2.\<close> With \<^verbatim>\<open>AUDIO_OFFSET_CHUNK=120\<close> an audio of 200 seconds is split into the
  windows 0..120 s and 120..200 s. A segment that the model places 10 to 20 seconds
  into the second window lies at 130 to 140 seconds of the recording; the merge
  stores it at 310 to 320 seconds.
\<close>

theorem transcribe_chunks_offset_not_configured:
  "split_audio 200000 120 = Inr [(0, 0, 120000), (1, 120000, 200000)]
   \<and> transcribe_chunks (\<lambda>_. []) no_rounding 3 200000 120
       (\<lambda>idx. if idx = 0
          then (\<lambda>_. Inr (Inr (JArr
                 [JObj [(''start'', JNum 5), (''end'', JNum 8), (''text'', JStr ''a''), (''speaker'', JStr ''A'')]])))
          else (\<lambda>_. Inr (Inr (JArr
                 [JObj [(''start'', JNum 10), (''end'', JNum 20), (''text'', JStr ''b''), (''speaker'', JStr ''A'')]]))))
     = Inr [JObj [(''start'', JNum 5), (''end'', JNum 8), (''text'', JStr ''a''), (''speaker'', JStr ''A'')],
            JObj [(''start'', JNum 310), (''end'', JNum 320), (''text'', JStr ''b''), (''speaker'', JStr ''A'')]]
   \<and> recording_relative 120 1 10 = 130
   \<and> recording_relative 120 1 20 = 140"
  by (simp add: transcribe_defs extract_defs upt_rec numeral_3_eq_3 recording_relative_def)

section \<open>The transcript of a recording\<close>

text \<open>
  \<^verbatim>\<open>AudioProcessor.get_transcription\<close> runs its steps under
  \<^const>\<open>retry_with_backoff\<close>. What a run meets outside the code is given with the
  run: whether \<^verbatim>\<open>validate_audio_file\<close> accepts the file, whether \<^verbatim>\<open>pydub\<close> can read
  the audio in \<^verbatim>\<open>get_segments\<close> and how many milliseconds it is long, what the model
  answers on the chunks, and what \<^verbatim>\<open>_extract_speaker_names_from_transcription\<close> finds
  in the texts (a mapping from speaker labels to names, or its exception).
\<close>

record run =
  run_valid :: bool
  run_audio_loads :: bool
  run_audio_length :: nat
  run_responses :: "nat \<Rightarrow> attempts"
  run_speaker_mapping :: "py_error + (json \<times> json) list"

text \<open>
  \<^verbatim>\<open>AudioProcessor.get_segments\<close>. The duration is \<^verbatim>\<open>len(audio) / 1000.0\<close>, and 1.0
  when this raises; an exception of the transcription is raised again as
  \<^verbatim>\<open>Exception\<close>.
\<close>

definition audio_duration :: "py_float \<Rightarrow> run \<Rightarrow> real" where
  "audio_duration fl env =
     (if run_audio_loads env
      then (case divide fl (real (run_audio_length env)) 1000 of
              None \<Rightarrow> 1
            | Some audio_length \<Rightarrow> audio_length)
      else 1)"

definition get_segments ::
    "(json \<Rightarrow> string) \<Rightarrow> py_float \<Rightarrow> nat \<Rightarrow> int \<Rightarrow> run \<Rightarrow> py_error + json list" where
  "get_segments repr fl max_retries AUDIO_OFFSET_CHUNK env =
     (case transcribe_with_gemini repr fl max_retries (audio_duration fl env) (run_audio_length env)
             AUDIO_OFFSET_CHUNK (run_responses env) of
        Inl e \<Rightarrow> Inl GenericException
      | Inr all_segments \<Rightarrow> Inr all_segments)"

text \<open>
  The loop of \<^verbatim>\<open>_get_transcription_internal\<close> over the segments. It reads a
  timestamp by itself: a string with colons that has not three parts is read from
  its first two parts, and anything that is not a string goes to \<^verbatim>\<open>float\<close>. (A
  string with a colon has at least two parts, so the last case is not reached.)
\<close>

definition seconds_of :: "py_float \<Rightarrow> json \<Rightarrow> py_error + real" where
  "seconds_of fl t =
     (case t of
        JStr s \<Rightarrow>
          if CHR '':'' \<in> set s then
            (case split_on CHR '':'' s of
               [hours, minutes, seconds] \<Rightarrow>
                 and_then (float_of fl hours) (\<lambda>h.
                 and_then (float_of fl minutes) (\<lambda>m.
                 and_then (float_of fl seconds) (\<lambda>s.
                   Inr (hours_minutes_seconds fl h m s))))
             | minutes # seconds # others \<Rightarrow>
                 and_then (float_of fl minutes) (\<lambda>m.
                 and_then (float_of fl seconds) (\<lambda>s.
                   Inr (minutes_seconds fl m s)))
             | _ \<Rightarrow> Inl GenericException)
          else float_of fl s
      | JNum r \<Rightarrow> float_of_number fl r
      | JBool b \<Rightarrow> Inr (if b then 1 else 0)
      | _ \<Rightarrow> Inl TypeError)"

text \<open>
  One turn of the loop: \<open>None\<close> when the segment is skipped, because it is not a
  dict, has no \<^verbatim>\<open>start\<close> or no \<^verbatim>\<open>end\<close>, or because reading them raises.
\<close>

definition convert_segment :: "py_float \<Rightarrow> json \<Rightarrow> json option" where
  "convert_segment fl segment =
     (case segment of
        JObj d \<Rightarrow>
          (case (map_of d ''start'', map_of d ''end'') of
             (Some start_time, Some end_time) \<Rightarrow>
               (case seconds_of fl start_time of
                  Inl e \<Rightarrow> None
                | Inr start_seconds \<Rightarrow>
                    (case seconds_of fl end_time of
                       Inl e \<Rightarrow> None
                     | Inr end_seconds \<Rightarrow>
                         Some (JObj (dict_set (dict_set d ''start'' (JNum start_seconds))
                                       ''end'' (JNum end_seconds)))))
           | _ \<Rightarrow> None)
      | _ \<Rightarrow> None)"

text \<open>One run, \<^verbatim>\<open>_get_transcription_internal\<close>.\<close>

definition get_transcription_internal ::
    "(json \<Rightarrow> string) \<Rightarrow> py_float \<Rightarrow> nat \<Rightarrow> int \<Rightarrow> run \<Rightarrow> py_error + json list" where
  "get_transcription_internal repr fl max_retries AUDIO_OFFSET_CHUNK env =
     (if \<not> run_valid env then Inl ValueError
      else and_then (get_segments repr fl max_retries AUDIO_OFFSET_CHUNK env) (\<lambda>all_segments.
             (let transcriptions = List.map_filter (convert_segment fl) all_segments
              in and_then (run_speaker_mapping env) (\<lambda>speaker_mapping.
                   if speaker_mapping \<noteq> []
                   then apply_speaker_name_mapping transcriptions speaker_mapping
                   else Inr transcriptions))))"

text \<open>
  \<^verbatim>\<open>get_transcription\<close>, with its client initialised: the transcript of the first run
  that returns, among \<^verbatim>\<open>self.max_retries\<close> runs (the number of attempts that a chunk
  is given too); \<open>runs k\<close> is what run \<open>k\<close> meets.
\<close>

definition get_transcription ::
    "(json \<Rightarrow> string) \<Rightarrow> py_float \<Rightarrow> nat \<Rightarrow> int \<Rightarrow> (nat \<Rightarrow> run) \<Rightarrow> py_error + json list" where
  "get_transcription repr fl max_retries AUDIO_OFFSET_CHUNK runs =
     (case retry_with_backoff max_retries
             (\<lambda>k. get_transcription_internal repr fl max_retries AUDIO_OFFSET_CHUNK (runs k)) of
        Inl e \<Rightarrow> Inl GenericException
      | Inr transcriptions \<Rightarrow> Inr transcriptions)"

lemmas transcription_defs =
  get_transcription_def get_transcription_internal_def get_segments_def audio_duration_def
  transcribe_with_gemini_def convert_segment_def seconds_of_def

subsection \<open>The timestamps of the transcript\<close>

text \<open>
  The two timestamps of a segment as the loop of a run reads them, what a chunk
  contributes in a run (its answer after the extraction step, or nothing when the
  chunk has failed), and the timestamps that the transcript of a run is to hold: of
  a recording of at most 300 seconds those of the one answer, of a longer one those
  of the chunks in the order of their numbers, each moved by 300 seconds for each
  chunk before it. In both cases only the entries whose timestamps can be read
  count, in the order of the answer.
\<close>

definition segment_times :: "py_float \<Rightarrow> json \<Rightarrow> (real \<times> real) option" where
  "segment_times fl segment =
     (case segment of
        JObj d \<Rightarrow>
          (case (map_of d ''start'', map_of d ''end'') of
             (Some st, Some en) \<Rightarrow>
               (case (seconds_of fl st, seconds_of fl en) of
                  (Inr s, Inr e) \<Rightarrow> Some (s, e)
                | _ \<Rightarrow> None)
           | _ \<Rightarrow> None)
      | _ \<Rightarrow> None)"

definition chunk_answer :: "(json \<Rightarrow> string) \<Rightarrow> nat \<Rightarrow> run \<Rightarrow> nat \<Rightarrow> json list" where
  "chunk_answer repr max_retries env idx =
     snd (transcribe_chunk repr max_retries idx (run_responses env idx))"


text \<open>
  The answers of a run are in order when the one answer of a short recording has
  its starts ascending and each end after its start, and when each chunk of a long
  recording is a \<^const>\<open>good_chunk\<close> (and the offsets are doubles).
\<close>

definition answers_in_order ::
    "(json \<Rightarrow> string) \<Rightarrow> py_float \<Rightarrow> nat \<Rightarrow> int \<Rightarrow> run \<Rightarrow> bool" where
  "answers_in_order repr fl max_retries AUDIO_OFFSET_CHUNK env =
     (if audio_duration fl env \<le> 300
      then (let ts = List.map_filter (segment_times fl) (chunk_answer repr max_retries env 0)
            in sorted (map fst ts) \<and> list_all (\<lambda>t. fst t < snd t) ts)
      else list_all (\<lambda>i. good_chunk fl (chunk_answer repr max_retries env i))
             (chunk_numbers (run_audio_length env) AUDIO_OFFSET_CHUNK)
           \<and> offsets_exact fl (chunk_numbers (run_audio_length env) AUDIO_OFFSET_CHUNK))"


subsection \<open>The loop over the segments\<close>







subsection \<open>The speaker names\<close>



subsection \<open>One run\<close>







subsection \<open>The runs\<close>




subsection \<open>Examples\<close>

text \<open>
  Three runs on audios that are accepted and read. In the first the audio is ten
  minutes long and the model answers two segments for the first chunk and one for
  the second, all in order, and a speaker name is found; in the second the audio is
  ten seconds long and the one answer is in order; in the third, on the same
  audio, the model answers two segments in the wrong order, the second of them
  ending before it starts.
\<close>

definition two_chunks :: run where
  "two_chunks =
     \<lparr>run_valid = True, run_audio_loads = True, run_audio_length = 600000,
      run_responses = (\<lambda>idx k. if idx = 0
        then Inr (Inr (JArr
               [JObj [(''start'', JNum 10), (''end'', JNum 15), (''text'', JStr ''a''), (''speaker'', JStr ''A'')],
                JObj [(''start'', JNum 20), (''end'', JNum 25), (''text'', JStr ''b''), (''speaker'', JStr ''B'')]]))
        else Inr (Inr (JArr
               [JObj [(''start'', JNum 1), (''end'', JNum 2), (''text'', JStr ''c''), (''speaker'', JStr ''A'')]]))),
      run_speaker_mapping = Inr [(JStr ''A'', JStr ''Asha'')]\<rparr>"

definition one_chunk :: run where
  "one_chunk =
     \<lparr>run_valid = True, run_audio_loads = True, run_audio_length = 10000,
      run_responses = (\<lambda>idx k. Inr (Inr (JArr
               [JObj [(''start'', JNum 1), (''end'', JNum 2), (''text'', JStr ''a''), (''speaker'', JStr ''A'')],
                JObj [(''start'', JNum 3), (''end'', JNum 5), (''text'', JStr ''b''), (''speaker'', JStr ''B'')]]))),
      run_speaker_mapping = Inr []\<rparr>"

definition out_of_order :: run where
  "out_of_order =
     \<lparr>run_valid = True, run_audio_loads = True, run_audio_length = 10000,
      run_responses = (\<lambda>idx k. Inr (Inr (JArr
               [JObj [(''start'', JNum 8), (''end'', JNum 9), (''text'', JStr ''b''), (''speaker'', JStr ''B'')],
                JObj [(''start'', JNum 4), (''end'', JNum 3), (''text'', JStr ''a''), (''speaker'', JStr ''A'')]]))),
      run_speaker_mapping = Inr []\<rparr>"

lemmas example_defs =
  transcription_defs transcribe_defs extract_defs mapping_defs
  two_chunks_def one_chunk_def out_of_order_def upt_rec numeral_3_eq_3







text \<open>
  Why the end of a segment of a later chunk is only known to be at least its start:
  the distance between neighbouring doubles grows with their size, so that the sum
  with the offset can round two timestamps onto the same double. With doubles this
  happens to 1.0 and 1.0000000000000002 in the second chunk, which are both stored
  as 301.0. The same is seen in a format that keeps every number below 256 and
  only the whole numbers from there on: 1 and 1.2 in the second chunk are then
  both stored as 301.
\<close>

definition whole_from_256 :: py_float where
  "whole_from_256 =
     \<lparr>float_str = (\<lambda>s. None), float_num = Some,
      rnd = (\<lambda>x. if x < 256 then x else of_int \<lfloor>x + 1 / 2\<rfloor>),
      divide = (\<lambda>x y. Some (x / y))\<rparr>"

definition close_timestamps :: run where
  "close_timestamps =
     \<lparr>run_valid = True, run_audio_loads = True, run_audio_length = 600000,
      run_responses = (\<lambda>idx k. Inr (Inr (JArr
               [JObj [(''start'', JNum 1), (''end'', JNum (12 / 10)), (''text'', JStr ''a''), (''speaker'', JStr ''A'')]]))),
      run_speaker_mapping = Inr []\<rparr>"

lemma whole_from_256_monotone:
  assumes "x \<le> y"
  shows "rnd whole_from_256 x \<le> rnd whole_from_256 y"
proof (cases "y < 256")
  case True
  with assms show ?thesis by (simp add: whole_from_256_def)
next
  case False
  then have "(256 :: int) \<le> \<lfloor>y + 1 / 2\<rfloor>" by (simp add: le_floor_iff)
  then have y: "256 \<le> real_of_int \<lfloor>y + 1 / 2\<rfloor>" by linarith
  show ?thesis
  proof (cases "x < 256")
    case True
    with y have "x \<le> real_of_int \<lfloor>y + 1 / 2\<rfloor>" by linarith
    with False True show ?thesis by (simp add: whole_from_256_def)
  next
    case x: False
    from assms have "\<lfloor>x + 1 / 2\<rfloor> \<le> \<lfloor>y + 1 / 2\<rfloor>" by (intro floor_mono) simp
    with False x show ?thesis by (simp add: whole_from_256_def)
  qed
qed

lemma whole_from_256_offsets:
  "offsets_exact whole_from_256 [0, Suc 0]"
  using whole_from_256_monotone by (simp add: offsets_exact_def) (simp add: whole_from_256_def)

lemma get_transcription_rounds_end_onto_start:
  "get_transcription (\<lambda>_. []) whole_from_256 3 300 (\<lambda>k. close_timestamps)
     = Inr [JObj [(''start'', JNum 1), (''end'', JNum (12 / 10)), (''text'', JStr ''a''), (''speaker'', JStr ''A'')],
            JObj [(''start'', JNum 301), (''end'', JNum 301), (''text'', JStr ''a''), (''speaker'', JStr ''A'')]]
   \<and> answers_in_order (\<lambda>_. []) whole_from_256 3 300 close_timestamps"
proof -
  have "chunk_numbers (run_audio_length close_timestamps) 300 = [0, Suc 0]"
    by (simp add: chunk_numbers_def split_audio_def close_timestamps_def upt_rec)
  moreover have "\<not> audio_duration whole_from_256 close_timestamps \<le> 300"
    by (simp add: audio_duration_def close_timestamps_def whole_from_256_def)
  moreover have "good_chunk whole_from_256 (chunk_answer (\<lambda>_. []) 3 close_timestamps i)" for i
    by (simp add: chunk_answer_def good_chunk_def chunk_times_def example_defs close_timestamps_def
        whole_from_256_def)
  ultimately have "answers_in_order (\<lambda>_. []) whole_from_256 3 300 close_timestamps"
    using whole_from_256_offsets by (simp add: answers_in_order_def)
  moreover have "get_transcription (\<lambda>_. []) whole_from_256 3 300 (\<lambda>k. close_timestamps)
     = Inr [JObj [(''start'', JNum 1), (''end'', JNum (12 / 10)), (''text'', JStr ''a''), (''speaker'', JStr ''A'')],
            JObj [(''start'', JNum 301), (''end'', JNum 301), (''text'', JStr ''a''), (''speaker'', JStr ''A'')]]"
    by (simp add: example_defs whole_from_256_def close_timestamps_def)
  ultimately show ?thesis by simp
qed

text \<open>
  The offset of the merge through the whole pipeline: with \<^verbatim>\<open>AUDIO_OFFSET_CHUNK=120\<close>
  an audio of 400 seconds is cut into four windows, and a segment that the model
  places 10 to 20 seconds into the second window, 130 to 140 seconds into the
  recording, is returned at 310 to 320 seconds.
\<close>

definition short_windows :: run where
  "short_windows =
     \<lparr>run_valid = True, run_audio_loads = True, run_audio_length = 400000,
      run_responses = (\<lambda>idx k. if idx = 1
        then Inr (Inr (JArr
               [JObj [(''start'', JNum 10), (''end'', JNum 20), (''text'', JStr ''b''), (''speaker'', JStr ''A'')]]))
        else Inl GenericException),
      run_speaker_mapping = Inr []\<rparr>"

lemma get_transcription_offset_not_configured:
  "get_transcription (\<lambda>_. []) no_rounding 3 120 (\<lambda>k. short_windows)
     = Inr [JObj [(''start'', JNum 310), (''end'', JNum 320), (''text'', JStr ''b''), (''speaker'', JStr ''A'')]]
   \<and> chunk_numbers 400000 120 = [0, 1, 2, 3]
   \<and> recording_relative 120 1 10 = 130
   \<and> recording_relative 120 1 20 = 140"
  by (simp add: example_defs short_windows_def chunk_numbers_def recording_relative_def)

section \<open>Analytics extraction and the sentiment fields\<close>

text \<open>
  \<^verbatim>\<open>MobileAudioAnalytics.extract_analytics\<close> and \<^verbatim>\<open>FlatMeetingAnalytics.extract_analytics\<close>
  from the parsed model response \<^verbatim>\<open>analytics_data\<close> on (a JSON object, as
  \<^verbatim>\<open>_parse_gemini_response\<close> cuts the text from its first to its last brace), and the
  guard of \<^verbatim>\<open>BackgroundTranscriptionService._extract_flat_meeting_analytics\<close> before
  the record is saved. What the functions know besides the response is the context.
\<close>

record analytics_context =
  ctx_meeting_id :: string
  ctx_user_email :: string
  ctx_meeting_title :: string
  ctx_meeting_date :: string
  ctx_extraction_timestamp :: string
  ctx_processing_duration :: real
  ctx_transcript :: "json list"
  ctx_participants :: "string list"
  ctx_duration_minutes :: "int option"

text \<open>
  The sentiment block, kept from raising by its own \<^verbatim>\<open>try\<close>: the section is read
  with \<^verbatim>\<open>.get\<close>, which a value that is not a dict does not have; the first call then
  raises and both values stay at their defaults.
\<close>

definition extract_sentiment :: "string \<Rightarrow> string \<Rightarrow> pydict \<Rightarrow> json \<times> json" where
  "extract_sentiment section label analytics_data =
     (case map_of analytics_data section of
        None \<Rightarrow> (JStr ''neutral'', JNum 5)
      | Some (JObj sentiment_data) \<Rightarrow>
          (dict_get sentiment_data label (JStr ''neutral''),
           dict_get sentiment_data ''sentiment_score'' (JNum 5))
      | Some _ \<Rightarrow> (JStr ''neutral'', JNum 5))"

text \<open>
  The ways in which an entry of the flat record is read from the response:
  a value known beforehand, \<^verbatim>\<open>analytics_data.get(s, {}).get(k, dflt)\<close>,
  \<^verbatim>\<open>analytics_data[s][k]\<close>, \<^verbatim>\<open>analytics_data[s][t][k]\<close> and
  \<^verbatim>\<open>analytics_data[s].get(k, dflt)\<close>.
\<close>

datatype field =
    Given json
  | Opt string string json
  | Req2 string string
  | Req3 string string string
  | ReqOpt string string json

text \<open>\<^verbatim>\<open>v[k]\<close> and \<^verbatim>\<open>v.get(k, dflt)\<close> on a value that need not be a dict.\<close>

definition subscript :: "json \<Rightarrow> string \<Rightarrow> py_error + json" where
  "subscript v k =
     (case v of
        JObj d \<Rightarrow> (case map_of d k of Some x \<Rightarrow> Inr x | None \<Rightarrow> Inl KeyError)
      | _ \<Rightarrow> Inl TypeError)"

definition get_method :: "json \<Rightarrow> string \<Rightarrow> json \<Rightarrow> py_error + json" where
  "get_method v k dflt =
     (case v of
        JObj d \<Rightarrow> Inr (dict_get d k dflt)
      | _ \<Rightarrow> Inl AttributeError)"

fun field_value :: "pydict \<Rightarrow> field \<Rightarrow> py_error + json" where
  "field_value analytics_data (Given v) = Inr v"
| "field_value analytics_data (Opt s k dflt) = get_method (dict_get analytics_data s (JObj [])) k dflt"
| "field_value analytics_data (Req2 s k) =
     and_then (subscript (JObj analytics_data) s) (\<lambda>v. subscript v k)"
| "field_value analytics_data (Req3 s t k) =
     and_then (subscript (JObj analytics_data) s) (\<lambda>v.
     and_then (subscript v t) (\<lambda>w. subscript w k))"
| "field_value analytics_data (ReqOpt s k dflt) =
     and_then (subscript (JObj analytics_data) s) (\<lambda>v. get_method v k dflt)"

text \<open>The dict display, entry by entry; the first entry that raises ends it.\<close>

fun build_fields :: "pydict \<Rightarrow> (string \<times> field) list \<Rightarrow> py_error + pydict" where
  "build_fields analytics_data [] = Inr []"
| "build_fields analytics_data ((name, f) # entries) =
     and_then (field_value analytics_data f) (\<lambda>v.
     and_then (build_fields analytics_data entries) (\<lambda>rest. Inr ((name, v) # rest)))"

definition mobile_fields :: "analytics_context \<Rightarrow> json \<Rightarrow> json \<Rightarrow> (string \<times> field) list" where
  "mobile_fields ctx sentiment_value sentiment_score_value =
     [(''meeting_id'', Given (JStr (ctx_meeting_id ctx))),
      (''user_email'', Given (JStr (ctx_user_email ctx))),
      (''meeting_title'', Given (JStr (ctx_meeting_title ctx))),
      (''meeting_date'', Given (JStr (ctx_meeting_date ctx))),
      (''audio_clarity'', Opt ''audio_quality'' ''clarity_score'' (JNum 7)),
      (''background_noise_level'', Opt ''audio_quality'' ''background_noise_level'' (JNum 5)),
      (''audio_consistency'', Opt ''audio_quality'' ''consistency_score'' (JNum 7)),
      (''volume_stability'', Opt ''audio_quality'' ''volume_stability'' (JNum 7)),
      (''speech_intelligibility'', Opt ''audio_quality'' ''speech_intelligibility'' (JNum 7)),
      (''speaking_pace'', Opt ''voice_characteristics'' ''average_speaking_pace'' (JNum 5)),
      (''pauses_and_silences'', Opt ''voice_characteristics'' ''pause_frequency'' (JNum 5)),
      (''voice_energy_level'', Opt ''voice_characteristics'' ''energy_level'' (JNum 5)),
      (''articulation_quality'', Opt ''voice_characteristics'' ''articulation_quality'' (JNum 7)),
      (''vocal_clarity'', Opt ''voice_characteristics'' ''vocal_clarity'' (JNum 7)),
      (''speaking_rate_variation'', Opt ''voice_characteristics'' ''rate_variation'' (JNum 5)),
      (''filler_words_count'', Opt ''communication_patterns'' ''filler_words_count'' (JNum 0)),
      (''filler_words_frequency'', Opt ''communication_patterns'' ''filler_words_frequency'' (JNum 5)),
      (''interruptions_count'', Opt ''communication_patterns'' ''interruptions_count'' (JNum 0)),
      (''turn_taking_quality'', Opt ''communication_patterns'' ''turn_taking_quality'' (JNum 7)),
      (''overlapping_speech'', Opt ''communication_patterns'' ''overlapping_speech_frequency'' (JNum 5)),
      (''question_frequency'', Opt ''communication_patterns'' ''question_count'' (JNum 0)),
      (''response_time_average'', Opt ''communication_patterns'' ''average_response_time'' (JNum 5)),
      (''sentiment'', Given sentiment_value),
      (''sentiment_score'', Given sentiment_score_value),
      (''emotional_tone'', Opt ''sentiment_analysis'' ''emotional_tone'' (JStr ''neutral'')),
      (''tension_level'', Opt ''sentiment_analysis'' ''tension_level'' (JNum 5)),
      (''enthusiasm_level'', Opt ''sentiment_analysis'' ''enthusiasm_level'' (JNum 5)),
      (''conflicts_detected'', Opt ''conflict_analysis'' ''conflicts_detected'' (JNum 0)),
      (''disagreement_frequency'', Opt ''conflict_analysis'' ''disagreement_frequency'' (JNum 5)),
      (''conflict_resolution_quality'', Opt ''conflict_analysis'' ''resolution_quality'' (JNum 7)),
      (''constructive_discussion_score'', Opt ''conflict_analysis'' ''constructive_score'' (JNum 7)),
      (''tension_indicators'', Opt ''conflict_analysis'' ''tension_indicators'' (JArr [])),
      (''total_participants'', (if ctx_participants ctx \<noteq> [] then Given (JNum (real (length (ctx_participants ctx))))
         else Opt ''participation'' ''total_participants'' (JNum 1))),
      (''active_participation'', Opt ''participation'' ''active_participation_score'' (JNum 7)),
      (''engagement_level'', Opt ''participation'' ''engagement_level_score'' (JNum 7)),
      (''speaking_distribution'', Opt ''participation'' ''speaking_distribution_score'' (JNum 7)),
      (''listening_quality'', Opt ''participation'' ''listening_quality_score'' (JNum 7)),
      (''participation_balance'', Opt ''participation'' ''participation_balance'' (JNum 7)),
      (''silent_participants'', Opt ''participation'' ''silent_participants_count'' (JNum 0)),
      (''agenda_coverage'', Opt ''effectiveness'' ''agenda_coverage'' (JNum 70)),
      (''time_management'', Opt ''effectiveness'' ''time_management_score'' (JNum 7)),
      (''action_items_defined'', Opt ''effectiveness'' ''action_items_count'' (JNum 0)),
      (''decision_making_efficiency'', Opt ''effectiveness'' ''decision_making_score'' (JNum 7)),
      (''discussion_relevance'', Opt ''effectiveness'' ''relevance_score'' (JNum 7)),
      (''clarity_of_communication'', Opt ''communication_quality'' ''clarity_score'' (JNum 7)),
      (''professionalism'', Opt ''communication_quality'' ''professionalism_score'' (JNum 7)),
      (''respectful_communication'', Opt ''communication_quality'' ''respect_score'' (JNum 7)),
      (''active_listening'', Opt ''communication_quality'' ''active_listening_score'' (JNum 7)),
      (''conversation_flow'', Opt ''communication_quality'' ''conversation_flow_score'' (JNum 7)),
      (''key_moments'', Opt ''audio_insights'' ''key_moments'' (JArr [])),
      (''notable_silences'', Opt ''audio_insights'' ''notable_silences_count'' (JNum 0)),
      (''energy_shifts'', Opt ''audio_insights'' ''energy_shifts_count'' (JNum 0)),
      (''speech_patterns'', Opt ''audio_insights'' ''notable_patterns'' (JArr [])),
      (''extraction_timestamp'', Given (JStr (ctx_extraction_timestamp ctx))),
      (''transcript_length'', Given (JNum (real (length (ctx_transcript ctx))))),
      (''processing_duration_seconds'', Given (JNum (ctx_processing_duration ctx))),
      (''model_used'', Given (JStr ''gemini-2.0-flash'')),
      (''analytics_type'', Given (JStr ''mobile_audio'')),
      (''participants'', Given (JArr (map JStr (ctx_participants ctx)))),
      (''duration_minutes'', Given (case ctx_duration_minutes ctx of Some n \<Rightarrow> JNum (real_of_int n) | None \<Rightarrow> JNum 0)),
      (''transcriptions'', Given (JArr (ctx_transcript ctx)))]"

definition flat_fields :: "analytics_context \<Rightarrow> json \<Rightarrow> json \<Rightarrow> (string \<times> field) list" where
  "flat_fields ctx sentiment_value sentiment_score_value =
     [(''meeting_id'', Given (JStr (ctx_meeting_id ctx))),
      (''user_email'', Given (JStr (ctx_user_email ctx))),
      (''meeting_title'', Given (JStr (ctx_meeting_title ctx))),
      (''meeting_date'', Given (JStr (ctx_meeting_date ctx))),
      (''audio_clarity'', Req2 ''technical_audio_visual_quality'' ''audio_clarity''),
      (''video_quality'', Req2 ''technical_audio_visual_quality'' ''video_quality''),
      (''connectivity_stability'', Req2 ''technical_audio_visual_quality'' ''connectivity_stability''),
      (''latency_delay'', Req2 ''technical_audio_visual_quality'' ''latency_delay''),
      (''mute_unmute_usage'', Req2 ''technical_audio_visual_quality'' ''mute_unmute_usage''),
      (''screen_sharing_quality'', Req2 ''technical_audio_visual_quality'' ''screen_sharing_quality''),
      (''total_participants'', Req3 ''participation_engagement'' ''attendance'' ''total_participants''),
      (''on_time_participants'', Req3 ''participation_engagement'' ''attendance'' ''on_time''),
      (''late_participants'', Req3 ''participation_engagement'' ''attendance'' ''late''),
      (''avg_duration_minutes'', Req3 ''participation_engagement'' ''attendance'' ''avg_duration_minutes''),
      (''active_participation'', Req2 ''participation_engagement'' ''active_participation''),
      (''engagement_level'', Req2 ''participation_engagement'' ''engagement_level''),
      (''chat_contributions'', Req2 ''participation_engagement'' ''chat_contributions''),
      (''poll_responses'', Req2 ''participation_engagement'' ''poll_responses''),
      (''agenda_coverage'', Req2 ''meeting_effectiveness'' ''agenda_coverage''),
      (''time_management'', Req2 ''meeting_effectiveness'' ''time_management''),
      (''action_items_defined'', Req2 ''meeting_effectiveness'' ''action_items_defined''),
      (''decision_making_efficiency'', Req2 ''meeting_effectiveness'' ''decision_making_efficiency''),
      (''discussion_relevance'', Req2 ''meeting_effectiveness'' ''discussion_relevance''),
      (''speaking_distribution'', ReqOpt ''participation_engagement'' ''speaking_distribution'' (JNum 7)),
      (''listening_quality'', ReqOpt ''participation_engagement'' ''listening_quality'' (JNum 7)),
      (''participation_balance'', ReqOpt ''participation_engagement'' ''participation_balance'' (JNum 7)),
      (''key_moments'', Opt ''audio_insights'' ''key_moments'' (JArr [])),
      (''notable_silences'', Opt ''audio_insights'' ''notable_silences_count'' (JNum 0)),
      (''energy_shifts'', Opt ''audio_insights'' ''energy_shifts_count'' (JNum 0)),
      (''speech_patterns'', Opt ''audio_insights'' ''notable_patterns'' (JArr [])),
      (''clarity_of_communication'', Req2 ''collaboration_communication'' ''clarity_of_communication''),
      (''inclusiveness'', Req2 ''collaboration_communication'' ''inclusiveness''),
      (''team_collaboration'', Req2 ''collaboration_communication'' ''team_collaboration''),
      (''conflict_handling'', Req2 ''collaboration_communication'' ''conflict_handling''),
      (''cross_department_interactions'', Req2 ''collaboration_communication'' ''cross_department_interactions''),
      (''professional_etiquette'', Req2 ''behavioral_professional_aspects'' ''professional_etiquette''),
      (''camera_discipline'', Req2 ''behavioral_professional_aspects'' ''camera_discipline''),
      (''non_verbal_cues'', Req2 ''behavioral_professional_aspects'' ''non_verbal_cues''),
      (''respectful_communication'', Req2 ''behavioral_professional_aspects'' ''respectful_communication''),
      (''follow_up_ownership'', Req2 ''behavioral_professional_aspects'' ''follow_up_ownership''),
      (''meeting_access_control'', Req2 ''security_compliance'' ''meeting_access_control''),
      (''confidentiality_maintained'', Req2 ''security_compliance'' ''confidentiality_maintained''),
      (''recording_compliance'', Req2 ''security_compliance'' ''recording_compliance''),
      (''data_sharing_policies'', Req2 ''security_compliance'' ''data_sharing_policies''),
      (''meeting_minutes_shared'', Req2 ''post_meeting_outcomes'' ''meeting_minutes_shared''),
      (''action_items_tracked'', Req2 ''post_meeting_outcomes'' ''action_items_tracked''),
      (''feedback_collection'', Req2 ''post_meeting_outcomes'' ''feedback_collection''),
      (''meeting_roi'', Req2 ''post_meeting_outcomes'' ''meeting_roi''),
      (''sentiment'', Given sentiment_value),
      (''sentiment_score'', Given sentiment_score_value),
      (''extraction_timestamp'', Given (JStr (ctx_extraction_timestamp ctx))),
      (''transcript_length'', Given (JNum (real (length (ctx_transcript ctx))))),
      (''processing_duration_seconds'', Given (JNum (ctx_processing_duration ctx))),
      (''model_used'', Given (JStr ''gemini-2.0-flash'')),
      (''participants'', Given (JArr (map JStr (ctx_participants ctx)))),
      (''duration_minutes'', Given (case ctx_duration_minutes ctx of Some n \<Rightarrow> JNum (real_of_int n) | None \<Rightarrow> JNum 0)),
      (''transcriptions'', Given (JArr (ctx_transcript ctx)))]"

definition mobile_extract_analytics :: "analytics_context \<Rightarrow> pydict \<Rightarrow> py_error + pydict" where
  "mobile_extract_analytics ctx analytics_data =
     (let (sentiment_value, sentiment_score_value) =
            extract_sentiment ''sentiment_analysis'' ''overall_sentiment'' analytics_data
      in build_fields analytics_data (mobile_fields ctx sentiment_value sentiment_score_value))"

definition flat_extract_analytics :: "analytics_context \<Rightarrow> pydict \<Rightarrow> py_error + pydict" where
  "flat_extract_analytics ctx analytics_data =
     (let (sentiment_value, sentiment_score_value) =
            extract_sentiment ''meeting_sentiment'' ''sentiment'' analytics_data
      in build_fields analytics_data (flat_fields ctx sentiment_value sentiment_score_value))"

text \<open>The guard before saving: a missing sentiment key gets its default.\<close>

definition ensure_sentiment :: "pydict \<Rightarrow> pydict" where
  "ensure_sentiment flat_analytics_data =
     (if map_of flat_analytics_data ''sentiment'' = None
         \<or> map_of flat_analytics_data ''sentiment_score'' = None
      then (let d1 = (if map_of flat_analytics_data ''sentiment'' = None
                      then dict_set flat_analytics_data ''sentiment'' (JStr ''neutral'')
                      else flat_analytics_data)
            in if map_of d1 ''sentiment_score'' = None
               then dict_set d1 ''sentiment_score'' (JNum 5)
               else d1)
      else flat_analytics_data)"

text \<open>
  The analytics record that \<^verbatim>\<open>_extract_flat_meeting_analytics\<close> saves, or the exception
  after which it marks the analytics as failed and saves nothing.
\<close>

definition extract_flat_meeting_analytics ::
    "bool \<Rightarrow> analytics_context \<Rightarrow> pydict \<Rightarrow> py_error + pydict" where
  "extract_flat_meeting_analytics is_mobile_meeting ctx analytics_data =
     and_then (if is_mobile_meeting then mobile_extract_analytics ctx analytics_data
               else flat_extract_analytics ctx analytics_data)
       (\<lambda>flat_analytics_data. Inr (ensure_sentiment flat_analytics_data))"

text \<open>A field of a section of the response, when the response has it.\<close>

definition response_field :: "pydict \<Rightarrow> string \<Rightarrow> string \<Rightarrow> json option" where
  "response_field analytics_data section k =
     (case map_of analytics_data section of
        Some (JObj d) \<Rightarrow> map_of d k
      | _ \<Rightarrow> None)"

subsection \<open>The sentiment fields are always there\<close>

lemma build_fields_given:
  assumes "build_fields analytics_data entries = Inr flat"
    and "map_of entries k = Some (Given v)"
  shows "map_of flat k = Some v"
  using assms
proof (induction entries arbitrary: flat)
  case Nil
  then show ?case by simp
next
  case (Cons nf entries)
  obtain name f where nf: "nf = (name, f)" by (cases nf)
  from Cons.prems(1) nf obtain x rest where
    x: "field_value analytics_data f = Inr x" and rest: "build_fields analytics_data entries = Inr rest"
    and flat: "flat = (name, x) # rest"
    by (auto simp: and_then_def split: sum.splits)
  show ?case
  proof (cases "name = k")
    case True
    with Cons.prems(2) nf have "f = Given v" by simp
    with x flat True show ?thesis by simp
  next
    case False
    with Cons.prems(2) nf have "map_of entries k = Some (Given v)" by simp
    from Cons.IH [OF rest this] flat False show ?thesis by simp
  qed
qed

lemma mobile_fields_sentiment:
  "map_of (mobile_fields ctx sv ss) ''sentiment'' = Some (Given sv)"
  "map_of (mobile_fields ctx sv ss) ''sentiment_score'' = Some (Given ss)"
  by (simp_all add: mobile_fields_def)

lemma flat_fields_sentiment:
  "map_of (flat_fields ctx sv ss) ''sentiment'' = Some (Given sv)"
  "map_of (flat_fields ctx sv ss) ''sentiment_score'' = Some (Given ss)"
  by (simp_all add: flat_fields_def)

lemma ensure_sentiment_id:
  "map_of d ''sentiment'' \<noteq> None \<Longrightarrow> map_of d ''sentiment_score'' \<noteq> None \<Longrightarrow> ensure_sentiment d = d"
  by (auto simp: ensure_sentiment_def)

lemma extract_sentiment_values:
  "fst (extract_sentiment section label analytics_data)
     = (case response_field analytics_data section label of Some v \<Rightarrow> v | None \<Rightarrow> JStr ''neutral'')"
  "snd (extract_sentiment section label analytics_data)
     = (case response_field analytics_data section ''sentiment_score'' of Some v \<Rightarrow> v | None \<Rightarrow> JNum 5)"
  by (auto simp: extract_sentiment_def response_field_def dict_get_def split: option.splits json.splits)

lemma extract_flat_meeting_analytics_sentiment:
  assumes "extract_flat_meeting_analytics is_mobile_meeting ctx analytics_data = Inr saved"
  shows "map_of saved ''sentiment''
           = Some (fst (extract_sentiment
                          (if is_mobile_meeting then ''sentiment_analysis'' else ''meeting_sentiment'')
                          (if is_mobile_meeting then ''overall_sentiment'' else ''sentiment'')
                          analytics_data))"
    and "map_of saved ''sentiment_score''
           = Some (snd (extract_sentiment
                          (if is_mobile_meeting then ''sentiment_analysis'' else ''meeting_sentiment'')
                          (if is_mobile_meeting then ''overall_sentiment'' else ''sentiment'')
                          analytics_data))"
proof -
  let ?section = "if is_mobile_meeting then ''sentiment_analysis'' else ''meeting_sentiment''"
  let ?label = "if is_mobile_meeting then ''overall_sentiment'' else ''sentiment''"
  obtain sv ss where s: "extract_sentiment ?section ?label analytics_data = (sv, ss)"
    by (cases "extract_sentiment ?section ?label analytics_data")
  from assms obtain flat where
    b: "build_fields analytics_data
          (if is_mobile_meeting then mobile_fields ctx sv ss else flat_fields ctx sv ss) = Inr flat"
    and saved: "saved = ensure_sentiment flat"
    using s
    by (cases is_mobile_meeting)
       (auto simp: extract_flat_meeting_analytics_def mobile_extract_analytics_def
          flat_extract_analytics_def and_then_def split: sum.splits)
  have m1: "map_of (if is_mobile_meeting then mobile_fields ctx sv ss else flat_fields ctx sv ss) ''sentiment''
          = Some (Given sv)"
    and m2: "map_of (if is_mobile_meeting then mobile_fields ctx sv ss else flat_fields ctx sv ss) ''sentiment_score''
          = Some (Given ss)"
    by (simp_all add: mobile_fields_sentiment flat_fields_sentiment)
  have f: "map_of flat ''sentiment'' = Some sv" "map_of flat ''sentiment_score'' = Some ss"
    by (rule build_fields_given [OF b m1], rule build_fields_given [OF b m2])
  then have "ensure_sentiment flat = flat" by (intro ensure_sentiment_id) simp_all
  with f saved s show "map_of saved ''sentiment'' = Some (fst (extract_sentiment ?section ?label analytics_data))"
    and "map_of saved ''sentiment_score'' = Some (snd (extract_sentiment ?section ?label analytics_data))"
    by simp_all
qed

text \<open>
  \<^bold>\<open>C4.\<close> Whatever the model answered, an analytics record that is saved contains
  the sentiment label and the sentiment score; where the parsed response has no
  label (no score) in its sentiment section, or no such section, the record holds
  \<^verbatim>\<open>neutral\<close> (5.0).
\<close>

theorem extract_flat_meeting_analytics_has_sentiment:
  assumes "extract_flat_meeting_analytics is_mobile_meeting ctx analytics_data = Inr saved"
  shows "map_of saved ''sentiment'' \<noteq> None \<and> map_of saved ''sentiment_score'' \<noteq> None
       \<and> (response_field analytics_data
             (if is_mobile_meeting then ''sentiment_analysis'' else ''meeting_sentiment'')
             (if is_mobile_meeting then ''overall_sentiment'' else ''sentiment'') = None
           \<longrightarrow> map_of saved ''sentiment'' = Some (JStr ''neutral''))
       \<and> (response_field analytics_data
             (if is_mobile_meeting then ''sentiment_analysis'' else ''meeting_sentiment'')
             ''sentiment_score'' = None
           \<longrightarrow> map_of saved ''sentiment_score'' = Some (JNum 5))"
  using extract_flat_meeting_analytics_sentiment [OF assms]
  by (simp add: extract_sentiment_values)

theorem extract_flat_meeting_analytics_has_sentiment_witness:
  "\<not> isl (extract_flat_meeting_analytics True
       \<lparr>ctx_meeting_id = ''m1'', ctx_user_email = ''a@b.c'', ctx_meeting_title = ''Standup'',
        ctx_meeting_date = ''2025-01-01'', ctx_extraction_timestamp = ''2025-01-02'',
        ctx_processing_duration = 1, ctx_transcript = [], ctx_participants = [''A''],
        ctx_duration_minutes = Some 2\<rparr>
       [(''sentiment_analysis'', JObj [(''overall_sentiment'', JStr ''positive'')])])
   \<and> map_of (projr (extract_flat_meeting_analytics True
       \<lparr>ctx_meeting_id = ''m1'', ctx_user_email = ''a@b.c'', ctx_meeting_title = ''Standup'',
        ctx_meeting_date = ''2025-01-01'', ctx_extraction_timestamp = ''2025-01-02'',
        ctx_processing_duration = 1, ctx_transcript = [], ctx_participants = [''A''],
        ctx_duration_minutes = Some 2\<rparr>
       [(''sentiment_analysis'', JObj [(''overall_sentiment'', JStr ''positive'')])])) ''sentiment''
     = Some (JStr ''positive'')
   \<and> map_of (projr (extract_flat_meeting_analytics True
       \<lparr>ctx_meeting_id = ''m1'', ctx_user_email = ''a@b.c'', ctx_meeting_title = ''Standup'',
        ctx_meeting_date = ''2025-01-01'', ctx_extraction_timestamp = ''2025-01-02'',
        ctx_processing_duration = 1, ctx_transcript = [], ctx_participants = [''A''],
        ctx_duration_minutes = Some 2\<rparr>
       [(''sentiment_analysis'', JObj [(''overall_sentiment'', JStr ''positive'')])])) ''sentiment_score''
     = Some (JNum 5)"
proof -
  let ?ctx = "\<lparr>ctx_meeting_id = ''m1'', ctx_user_email = ''a@b.c'', ctx_meeting_title = ''Standup'',
        ctx_meeting_date = ''2025-01-01'', ctx_extraction_timestamp = ''2025-01-02'',
        ctx_processing_duration = 1, ctx_transcript = [], ctx_participants = [''A''],
        ctx_duration_minutes = Some 2\<rparr>"
  let ?ad = "[(''sentiment_analysis'', JObj [(''overall_sentiment'', JStr ''positive'')])]"
  have "\<exists>saved. extract_flat_meeting_analytics True ?ctx ?ad = Inr saved"
    by (simp add: extract_flat_meeting_analytics_def mobile_extract_analytics_def mobile_fields_def
        extract_sentiment_def and_then_def get_method_def dict_get_def)
  then obtain saved where s: "extract_flat_meeting_analytics True ?ctx ?ad = Inr saved" ..
  have l: "map_of saved ''sentiment'' = Some (JStr ''positive'')"
    using extract_flat_meeting_analytics_sentiment(1) [OF s]
    by (simp add: extract_sentiment_def dict_get_def)
  have r: "response_field ?ad ''sentiment_analysis'' ''sentiment_score'' = None"
    by (simp add: response_field_def)
  from extract_flat_meeting_analytics_has_sentiment [OF s] r
  have "map_of saved ''sentiment_score'' = Some (JNum 5)" by simp
  with l s show ?thesis by simp
qed

section \<open>The background poller\<close>

text \<open>
  The rows of \<^verbatim>\<open>meeting_records\<close> as far as the poller and the finalize step read and
  write them. The
  specification's state QUEUED is \<^verbatim>\<open>TranscriptionStatus.PENDING\<close>, IN\_PROGRESS is
  \<^verbatim>\<open>PROCESSING\<close> and DONE is \<^verbatim>\<open>COMPLETED\<close>. The primary key \<^verbatim>\<open>id\<close> is a UUID, here a
  number.
\<close>

datatype TranscriptionStatus = RECORDING | PENDING | PROCESSING | COMPLETED | FAILED

datatype AnalyticsStatus =
  Analytics_PENDING | Analytics_PROCESSING | Analytics_COMPLETED | Analytics_FAILED

record MeetingRecord =
  meeting_id :: nat
  title :: string
  description :: "string option"
  templateid :: "string option"
  status :: TranscriptionStatus
  s3_audio_path :: "string option"
  audio_filename :: "string option"
  is_processed :: bool
  analytics_status :: AnalyticsStatus

text \<open>
  \<^verbatim>\<open>db.query(MeetingRecord).filter(MeetingRecord.id == meeting_id).first()\<close> followed by
  assignments to the row and a commit: the first row with the id is changed.
\<close>

fun update_by_id ::
    "nat \<Rightarrow> (MeetingRecord \<Rightarrow> MeetingRecord) \<Rightarrow> MeetingRecord list \<Rightarrow> MeetingRecord list" where
  "update_by_id i f [] = []"
| "update_by_id i f (r # rs) =
     (if meeting_id r = i then f r # rs else r # update_by_id i f rs)"

definition update_meeting_status ::
    "MeetingRecord list \<Rightarrow> nat \<Rightarrow> TranscriptionStatus \<Rightarrow> MeetingRecord list" where
  "update_meeting_status db i st = update_by_id i (\<lambda>r. r\<lparr>status := st\<rparr>) db"

definition update_analytics_status ::
    "MeetingRecord list \<Rightarrow> nat \<Rightarrow> AnalyticsStatus \<Rightarrow> MeetingRecord list" where
  "update_analytics_status db i st = update_by_id i (\<lambda>r. r\<lparr>analytics_status := st\<rparr>) db"

text \<open>
  \<^verbatim>\<open>BackgroundTranscriptionService._get_pending_meetings\<close>: the query
  \<^verbatim>\<open>status == PENDING, s3_audio_path.isnot(None), s3_audio_path != ""\<close>.
\<close>

definition get_pending_meetings :: "MeetingRecord list \<Rightarrow> MeetingRecord list" where
  "get_pending_meetings db =
     filter (\<lambda>m. status m = PENDING \<and> s3_audio_path m \<noteq> None \<and> s3_audio_path m \<noteq> Some '''') db"

text \<open>
  What happens outside the database while a meeting is processed: the audio cannot
  be fetched or is not valid; an exception before the transcript is saved; an
  exception after it; the analytics fail; all is well.
\<close>

datatype processing =
    ContentMissing
  | RaisedBeforeSave
  | SavedThenRaised
  | SavedAnalyticsFailed
  | SavedAnalyticsDone

text \<open>
  \<^verbatim>\<open>BackgroundTranscriptionService._process_meeting\<close>, for the row \<open>meeting\<close> as the
  query returned it; every write goes through the id of that row.
\<close>

definition process_meeting ::
    "MeetingRecord list \<Rightarrow> MeetingRecord \<Rightarrow> processing \<Rightarrow> MeetingRecord list" where
  "process_meeting db meeting outcome =
     (let i = meeting_id meeting;
          db1 = update_meeting_status db i PROCESSING;
          saved = update_by_id i (\<lambda>r. r\<lparr>status := COMPLETED, is_processed := True\<rparr>) db1
      in if s3_audio_path meeting = None \<or> s3_audio_path meeting = Some ''''
         then update_meeting_status db1 i FAILED
         else (case outcome of
                 ContentMissing \<Rightarrow> update_meeting_status db1 i FAILED
               | RaisedBeforeSave \<Rightarrow> update_meeting_status db1 i FAILED
               | SavedThenRaised \<Rightarrow> update_meeting_status saved i FAILED
               | SavedAnalyticsFailed \<Rightarrow>
                   update_analytics_status
                     (update_analytics_status saved i Analytics_PROCESSING) i Analytics_FAILED
               | SavedAnalyticsDone \<Rightarrow>
                   update_by_id i (\<lambda>r. r\<lparr>analytics_status := Analytics_COMPLETED\<rparr>)
                     (update_analytics_status saved i Analytics_PROCESSING)))"

text \<open>
  One turn of \<^verbatim>\<open>_worker_loop\<close>: the pending meetings are queried once and processed
  one after the other, until the stop event is set (after \<open>stop_after\<close> of them).
\<close>

definition worker_tick ::
    "(MeetingRecord \<Rightarrow> processing) \<Rightarrow> nat \<Rightarrow> MeetingRecord list \<Rightarrow> MeetingRecord list" where
  "worker_tick outcome stop_after db =
     foldl (\<lambda>db' meeting. process_meeting db' meeting (outcome meeting)) db
       (take stop_after (get_pending_meetings db))"

text \<open>Any number of turns; what happens outside may differ from turn to turn.\<close>

fun worker_loop ::
    "nat \<Rightarrow> (nat \<Rightarrow> MeetingRecord \<Rightarrow> processing) \<Rightarrow> (nat \<Rightarrow> nat) \<Rightarrow> MeetingRecord list
       \<Rightarrow> MeetingRecord list" where
  "worker_loop 0 outcome stop_after db = db"
| "worker_loop (Suc n) outcome stop_after db =
     worker_loop n (\<lambda>k. outcome (Suc k)) (\<lambda>k. stop_after (Suc k))
       (worker_tick (outcome 0) (stop_after 0) db)"

subsection \<open>A recording without audio is never touched\<close>

definition audio_unset :: "MeetingRecord \<Rightarrow> bool" where
  "audio_unset m = (s3_audio_path m = None \<or> s3_audio_path m = Some '''')"

lemma update_by_id_ids:
  "(\<And>r. meeting_id (f r) = meeting_id r) \<Longrightarrow> map meeting_id (update_by_id i f db) = map meeting_id db"
  by (induction db) auto

lemma update_by_id_other:
  "m \<in> set db \<Longrightarrow> meeting_id m \<noteq> i \<Longrightarrow> m \<in> set (update_by_id i f db)"
  by (induction db) auto

lemma process_meeting_ids:
  "map meeting_id (process_meeting db meeting outcome) = map meeting_id db"
  by (cases outcome)
     (simp_all add: process_meeting_def Let_def update_meeting_status_def update_analytics_status_def
        update_by_id_ids)

lemma process_meeting_other:
  assumes "m \<in> set db" and "meeting_id m \<noteq> meeting_id meeting"
  shows "m \<in> set (process_meeting db meeting outcome)"
  using assms
  by (cases outcome)
     (simp_all add: process_meeting_def Let_def update_meeting_status_def update_analytics_status_def
        update_by_id_other)

lemma process_all_other:
  assumes "m \<in> set db" and "\<forall>p \<in> set ps. meeting_id p \<noteq> meeting_id m"
  shows "m \<in> set (foldl (\<lambda>db' meeting. process_meeting db' meeting (outcome meeting)) db ps)
       \<and> map meeting_id (foldl (\<lambda>db' meeting. process_meeting db' meeting (outcome meeting)) db ps)
           = map meeting_id db"
  using assms
proof (induction ps arbitrary: db)
  case Nil
  then show ?case by simp
next
  case (Cons p ps)
  have "m \<in> set (process_meeting db p (outcome p))"
    using Cons.prems by (intro process_meeting_other) auto
  moreover have "\<forall>p \<in> set ps. meeting_id p \<noteq> meeting_id m" using Cons.prems(2) by simp
  ultimately show ?case
    using Cons.IH [of "process_meeting db p (outcome p)"] by (simp add: process_meeting_ids)
qed

lemma not_selected:
  "audio_unset m \<Longrightarrow> m \<notin> set (get_pending_meetings db)"
  by (auto simp: audio_unset_def get_pending_meetings_def)

lemma worker_tick_keeps:
  assumes "distinct (map meeting_id db)" and "m \<in> set db" and "audio_unset m"
  shows "m \<in> set (worker_tick outcome stop_after db)
       \<and> map meeting_id (worker_tick outcome stop_after db) = map meeting_id db"
proof -
  have "\<forall>p \<in> set (take stop_after (get_pending_meetings db)). meeting_id p \<noteq> meeting_id m"
  proof
    fix p assume "p \<in> set (take stop_after (get_pending_meetings db))"
    then have p: "p \<in> set (get_pending_meetings db)" by (rule in_set_takeD)
    then have "p \<in> set db" by (simp add: get_pending_meetings_def)
    moreover from p assms(3) have "p \<noteq> m" using not_selected by blast
    ultimately show "meeting_id p \<noteq> meeting_id m"
      using assms(1,2) by (meson distinct_map inj_onD)
  qed
  from process_all_other [OF assms(2) this] show ?thesis
    by (simp add: worker_tick_def)
qed

text \<open>
  \<^bold>\<open>C7.\<close> In a table whose ids are distinct (the primary key), a recording whose
  audio location is \<^verbatim>\<open>None\<close> or empty is not among the meetings the poller selects,
  and after any number of turns of the poller its row is what it was; a recording
  that was PENDING (queued) is still PENDING.
\<close>

theorem worker_loop_leaves_unset_audio:
  assumes "distinct (map meeting_id db)" and "m \<in> set db" and "audio_unset m"
  shows "m \<notin> set (get_pending_meetings (worker_loop n outcome stop_after db))
       \<and> m \<in> set (worker_loop n outcome stop_after db)
       \<and> map meeting_id (worker_loop n outcome stop_after db) = map meeting_id db"
  using assms
proof (induction n arbitrary: db outcome stop_after)
  case 0
  then show ?case by (simp add: not_selected)
next
  case (Suc n)
  let ?db = "worker_tick (outcome 0) (stop_after 0) db"
  from worker_tick_keeps [OF Suc.prems] have k: "m \<in> set ?db" "map meeting_id ?db = map meeting_id db"
    by simp_all
  with Suc.prems(1) have "distinct (map meeting_id ?db)" by simp
  from Suc.IH [OF this k(1) Suc.prems(3)] k(2) show ?case by simp
qed

theorem worker_loop_leaves_unset_audio_witness:
  "distinct (map meeting_id
     [\<lparr>meeting_id = 1, title = ''Standup'', description = None, templateid = None,
       status = PENDING, s3_audio_path = None, audio_filename = None,
       is_processed = False, analytics_status = Analytics_PENDING\<rparr>,
      \<lparr>meeting_id = 2, title = ''Review'', description = None, templateid = None,
       status = PENDING, s3_audio_path = Some ''audio/2/2.mp3'',
       audio_filename = Some ''2.mp3'', is_processed = False, analytics_status = Analytics_PENDING\<rparr>])
   \<and> audio_unset
     \<lparr>meeting_id = 1, title = ''Standup'', description = None, templateid = None,
       status = PENDING, s3_audio_path = None, audio_filename = None,
      is_processed = False, analytics_status = Analytics_PENDING\<rparr>
   \<and> worker_loop 2 (\<lambda>k m. SavedAnalyticsDone) (\<lambda>k. 5)
     [\<lparr>meeting_id = 1, title = ''Standup'', description = None, templateid = None,
       status = PENDING, s3_audio_path = None, audio_filename = None,
       is_processed = False, analytics_status = Analytics_PENDING\<rparr>,
      \<lparr>meeting_id = 2, title = ''Review'', description = None, templateid = None,
       status = PENDING, s3_audio_path = Some ''audio/2/2.mp3'',
       audio_filename = Some ''2.mp3'', is_processed = False, analytics_status = Analytics_PENDING\<rparr>]
   = [\<lparr>meeting_id = 1, title = ''Standup'', description = None, templateid = None,
       status = PENDING, s3_audio_path = None, audio_filename = None,
       is_processed = False, analytics_status = Analytics_PENDING\<rparr>,
      \<lparr>meeting_id = 2, title = ''Review'', description = None, templateid = None,
       status = COMPLETED, s3_audio_path = Some ''audio/2/2.mp3'',
       audio_filename = Some ''2.mp3'', is_processed = True, analytics_status = Analytics_COMPLETED\<rparr>]"
proof -
  let ?m1 = "\<lparr>meeting_id = 1, title = ''Standup'', description = None, templateid = None,
       status = PENDING, s3_audio_path = None, audio_filename = None,
       is_processed = False, analytics_status = Analytics_PENDING\<rparr>"
  let ?m2 = "\<lparr>meeting_id = 2, title = ''Review'', description = None, templateid = None,
       status = PENDING, s3_audio_path = Some ''audio/2/2.mp3'',
       audio_filename = Some ''2.mp3'', is_processed = False, analytics_status = Analytics_PENDING\<rparr>"
  have d: "distinct (map meeting_id [?m1, ?m2])" by simp
  have i: "?m1 \<in> set [?m1, ?m2]" by simp
  have u: "audio_unset ?m1" by (simp add: audio_unset_def)
  have e: "worker_loop 2 (\<lambda>k m. SavedAnalyticsDone) (\<lambda>k. 5) [?m1, ?m2]
     = [?m1, \<lparr>meeting_id = 2, title = ''Review'', description = None, templateid = None,
       status = COMPLETED, s3_audio_path = Some ''audio/2/2.mp3'',
       audio_filename = Some ''2.mp3'', is_processed = True, analytics_status = Analytics_COMPLETED\<rparr>]"
    by (simp add: numeral_2_eq_2 worker_tick_def get_pending_meetings_def process_meeting_def
        update_meeting_status_def update_analytics_status_def Let_def)
  from worker_loop_leaves_unset_audio [OF d i u, of 2 "\<lambda>k m. SavedAnalyticsDone" "\<lambda>k. 5"] d u e
  show ?thesis by simp
qed

section \<open>Finalizing a streamed recording\<close>

text \<open>
  \<^verbatim>\<open>finalize_meeting_recording\<close> of \<^verbatim>\<open>api/services/meeting_service.py\<close>. The file system
  is the list of the paths that exist. What does not change between two calls is
  the configuration: the absolute path of \<^verbatim>\<open>temp_audio\<close>, the prefix of the keys in the
  object store, how an id is written, and what stitching does to the files. What
  the outside world answers in one call are the external calls: whether the upload
  succeeds, and what the suggestion service proposes (\<open>None\<close> when it proposes
  nothing or fails; an empty proposal is ignored).
\<close>

record finalize_config =
  base_dir :: string
  audio_prefix :: string
  id_str :: "nat \<Rightarrow> string"
  stitch_audio_chunks_v3 :: "string list \<Rightarrow> nat \<Rightarrow> string option \<times> string list"

record external_calls =
  upload_succeeds :: bool
  suggested_template_id :: "string option"
  suggested_description :: "string option"
  suggested_title :: "string option"

text \<open>\<^verbatim>\<open>os.path.basename\<close> and the substring test \<^verbatim>\<open>sub in s\<close>.\<close>

definition basename :: "string \<Rightarrow> string" where
  "basename p = last (split_on CHR ''/'' p)"

fun starts_with :: "string \<Rightarrow> string \<Rightarrow> bool" where
  "starts_with s [] = True"
| "starts_with [] (c # sub) = False"
| "starts_with (a # s) (c # sub) = (a = c \<and> starts_with s sub)"

fun contains :: "string \<Rightarrow> string \<Rightarrow> bool" where
  "contains [] sub = (sub = [])"
| "contains (a # s) sub = (starts_with (a # s) sub \<or> contains s sub)"

text \<open>
  \<^verbatim>\<open>os.path.join(base_dir, f"meeting_{meeting_id_str}.wav")\<close> (and \<^verbatim>\<open>.webm\<close>), and the key
  \<^verbatim>\<open>f"{self.audio_prefix}{meeting_uuid}/{meeting_uuid}.mp3"\<close>.
\<close>

definition merged_path :: "finalize_config \<Rightarrow> nat \<Rightarrow> string \<Rightarrow> string" where
  "merged_path cfg i extension = base_dir cfg @ ''/'' @ ''meeting_'' @ id_str cfg i @ extension"

definition s3_key :: "finalize_config \<Rightarrow> nat \<Rightarrow> string" where
  "s3_key cfg i = audio_prefix cfg @ id_str cfg i @ ''/'' @ id_str cfg i @ ''.mp3''"

text \<open>
  \<^verbatim>\<open>S3Service.upload_audio_file\<close>: the key on success, \<^verbatim>\<open>None\<close> on any failure.
\<close>

definition upload_audio_file :: "finalize_config \<Rightarrow> external_calls \<Rightarrow> nat \<Rightarrow> string option" where
  "upload_audio_file cfg ext i = (if upload_succeeds ext then Some (s3_key cfg i) else None)"

text \<open>When the title counts as missing, so that one is suggested.\<close>

definition title_missing :: "string \<Rightarrow> bool" where
  "title_missing t =
     (let title_lower = py_lower t
      in t = [] \<or> py_strip title_lower = [] \<or> title_lower = ''untitled meeting''
         \<or> contains title_lower ''google meet:'' \<or> contains title_lower ''microsoft teams:''
         \<or> contains title_lower ''teams:'' \<or> contains title_lower ''zoom:'')"

text \<open>Steps 3 and 4: the suggestions for what is missing, written to the row.\<close>

definition apply_suggestions :: "external_calls \<Rightarrow> MeetingRecord \<Rightarrow> MeetingRecord" where
  "apply_suggestions ext meeting =
     (let m1 = (if templateid meeting = None \<or> templateid meeting = Some ''''
                then (case suggested_template_id ext of
                        Some t \<Rightarrow> if t = [] then meeting else meeting\<lparr>templateid := Some t\<rparr>
                      | None \<Rightarrow> meeting)
                else meeting);
          m2 = (if description meeting = None \<or> description meeting = Some ''''
                then (case suggested_description ext of
                        Some d \<Rightarrow> if d = [] then m1 else m1\<lparr>description := Some d\<rparr>
                      | None \<Rightarrow> m1)
                else m1)
      in if title_missing (title meeting)
         then (case suggested_title ext of
                 Some t \<Rightarrow> if t = [] then m2 else m2\<lparr>title := t\<rparr>
               | None \<Rightarrow> m2)
         else m2)"

text \<open>
  The result of a call: the row returned (\<open>None\<close> when there is no such meeting or
  no audio), the table and the files afterwards, and whether the chunks were
  stitched in this call.
\<close>

record finalized =
  returned :: "MeetingRecord option"
  db_after :: "MeetingRecord list"
  files_after :: "string list"
  stitched :: bool

definition finalize_meeting_recording ::
    "finalize_config \<Rightarrow> external_calls \<Rightarrow> MeetingRecord list \<Rightarrow> string list \<Rightarrow> nat \<Rightarrow> finalized" where
  "finalize_meeting_recording cfg ext db files i =
     (case find (\<lambda>r. meeting_id r = i) db of
        None \<Rightarrow> \<lparr>returned = None, db_after = db, files_after = files, stitched = False\<rparr>
      | Some meeting \<Rightarrow>
          (let existing_wav = merged_path cfg i ''.wav'';
               existing_webm = merged_path cfg i ''.webm'';
               (final_audio_path, files', did_stitch) =
                 (if existing_wav \<in> set files then (Some existing_wav, files, False)
                  else if existing_webm \<in> set files then (Some existing_webm, files, False)
                  else (let (p, fs) = stitch_audio_chunks_v3 cfg files i in (p, fs, True)))
           in case final_audio_path of
                None \<Rightarrow> \<lparr>returned = None, db_after = db, files_after = files', stitched = did_stitch\<rparr>
              | Some path \<Rightarrow>
                  if path = [] then
                    \<lparr>returned = None, db_after = db, files_after = files', stitched = did_stitch\<rparr>
                  else
                    (let s3_audio_path' =
                           (case upload_audio_file cfg ext i of
                              None \<Rightarrow> path
                            | Some key \<Rightarrow> if key = [] then path else key);
                         updated = apply_suggestions ext
                           (meeting\<lparr>s3_audio_path := Some s3_audio_path',
                                    audio_filename := Some (basename path),
                                    status := PENDING,
                                    analytics_status := Analytics_PENDING\<rparr>)
                     in \<lparr>returned = Some updated,
                         db_after = update_by_id i (\<lambda>r. updated) db,
                         files_after = files',
                         stitched = did_stitch\<rparr>)))"

text \<open>The audio reference that a call leaves in the recording.\<close>

definition audio_reference :: "finalized \<Rightarrow> string option" where
  "audio_reference r = (case returned r of None \<Rightarrow> None | Some m \<Rightarrow> s3_audio_path m)"

definition merged_file_exists :: "finalize_config \<Rightarrow> string list \<Rightarrow> nat \<Rightarrow> bool" where
  "merged_file_exists cfg files i =
     (merged_path cfg i ''.wav'' \<in> set files \<or> merged_path cfg i ''.webm'' \<in> set files)"

subsection \<open>Finalizing twice\<close>

lemma find_update_by_id:
  assumes "find (\<lambda>r. meeting_id r = i) db = Some m" and "meeting_id u = i"
  shows "find (\<lambda>r. meeting_id r = i) (update_by_id i (\<lambda>r. u) db) = Some u"
  using assms by (induction db) (auto split: if_splits)

lemma apply_suggestions_keeps:
  "meeting_id (apply_suggestions ext m) = meeting_id m"
  "s3_audio_path (apply_suggestions ext m) = s3_audio_path m"
  by (simp_all add: apply_suggestions_def Let_def split: option.splits)

lemma find_meeting_id:
  "find (\<lambda>r. meeting_id r = i) db = Some m \<Longrightarrow> meeting_id m = i"
  by (induction db) (auto split: if_splits)

text \<open>One call on a recording whose merged file exists.\<close>

lemma finalize_existing:
  assumes e: "merged_file_exists cfg files i"
    and f: "find (\<lambda>r. meeting_id r = i) db = Some meeting"
  shows "\<exists>path updated.
           path \<in> set files
         \<and> path = (if merged_path cfg i ''.wav'' \<in> set files
                    then merged_path cfg i ''.wav''
                    else merged_path cfg i ''.webm'')
         \<and> finalize_meeting_recording cfg ext db files i
             = \<lparr>returned = Some updated, db_after = update_by_id i (\<lambda>r. updated) db,
                files_after = files, stitched = False\<rparr>
         \<and> meeting_id updated = i
         \<and> s3_audio_path updated
             = Some (if upload_succeeds ext
                     then s3_key cfg i
                     else path)"
proof -
  let ?path = "if merged_path cfg i ''.wav'' \<in> set files
               then merged_path cfg i ''.wav'' else merged_path cfg i ''.webm''"
  have p: "?path \<in> set files" using e by (auto simp: merged_file_exists_def)
  have ne: "?path \<noteq> []" by (simp add: merged_path_def)
  have k: "s3_key cfg i \<noteq> []" by (simp add: s3_key_def)
  let ?ref = "case upload_audio_file cfg ext i of
                None \<Rightarrow> ?path | Some key \<Rightarrow> if key = [] then ?path else key"
  let ?updated = "apply_suggestions ext
                    (meeting\<lparr>s3_audio_path := Some ?ref, audio_filename := Some (basename ?path),
                             status := PENDING, analytics_status := Analytics_PENDING\<rparr>)"
  have r: "finalize_meeting_recording cfg ext db files i
             = \<lparr>returned = Some ?updated, db_after = update_by_id i (\<lambda>r. ?updated) db,
                files_after = files, stitched = False\<rparr>"
    using e f ne by (auto simp: finalize_meeting_recording_def merged_file_exists_def Let_def)
  have i: "meeting_id ?updated = i"
    using find_meeting_id [OF f] by (simp add: apply_suggestions_keeps)
  have s: "s3_audio_path ?updated
             = Some (if upload_succeeds ext
                     then s3_key cfg i
                     else ?path)"
    using k by (simp add: apply_suggestions_keeps upload_audio_file_def)
  from p r i s show ?thesis by blast
qed

text \<open>
  \<^bold>\<open>C8\<close>, as amended. When a merged final audio file exists for the recording, neither
  of two successive calls of finalize stitches or changes the files, and the two
  calls leave the same audio reference provided the upload to the object store has
  the same outcome in both (it succeeds twice, giving the key, or fails twice,
  giving the path of the merged file).
\<close>

theorem finalize_twice:
  assumes "merged_file_exists cfg files i"
    and "r1 = finalize_meeting_recording cfg ext1 db files i"
    and "r2 = finalize_meeting_recording cfg ext2 (db_after r1) (files_after r1) i"
  shows "\<not> stitched r1 \<and> \<not> stitched r2 \<and> files_after r1 = files \<and> files_after r2 = files
       \<and> (upload_succeeds ext1 = upload_succeeds ext2 \<longrightarrow> audio_reference r1 = audio_reference r2)"
proof (cases "find (\<lambda>r. meeting_id r = i) db")
  case None
  then have "r1 = \<lparr>returned = None, db_after = db, files_after = files, stitched = False\<rparr>"
    using assms(2) by (simp add: finalize_meeting_recording_def)
  moreover from this None have "r2 = \<lparr>returned = None, db_after = db, files_after = files, stitched = False\<rparr>"
    using assms(3) by (simp add: finalize_meeting_recording_def)
  ultimately show ?thesis by (simp add: audio_reference_def)
next
  case (Some meeting)
  from finalize_existing [OF assms(1) Some, of ext1] assms(2) obtain path u1 where
    r1: "r1 = \<lparr>returned = Some u1, db_after = update_by_id i (\<lambda>r. u1) db,
               files_after = files, stitched = False\<rparr>"
    and i1: "meeting_id u1 = i"
    and s1: "s3_audio_path u1
               = Some (if upload_succeeds ext1
                       then s3_key cfg i
                       else (if merged_path cfg i ''.wav'' \<in> set files
                             then merged_path cfg i ''.wav''
                             else merged_path cfg i ''.webm''))"
    by auto
  have f2: "find (\<lambda>r. meeting_id r = i) (db_after r1) = Some u1"
    unfolding r1 using find_update_by_id [OF Some i1] by simp
  have e2: "merged_file_exists cfg (files_after r1) i" using assms(1) r1 by simp
  from finalize_existing [OF e2 f2, of ext2] assms(3) obtain u2 where
    r2: "r2 = \<lparr>returned = Some u2, db_after = update_by_id i (\<lambda>r. u2) (db_after r1),
               files_after = files_after r1, stitched = False\<rparr>"
    and s2: "s3_audio_path u2
               = Some (if upload_succeeds ext2
                       then s3_key cfg i
                       else (if merged_path cfg i ''.wav'' \<in> set (files_after r1)
                             then merged_path cfg i ''.wav''
                             else merged_path cfg i ''.webm''))"
    by auto
  have fa: "files_after r1 = files" using r1 by simp
  show ?thesis
    using r1 r2 s1 s2 fa by (simp add: audio_reference_def)
qed

lemmas finalize_defs =
  finalize_meeting_recording_def merged_file_exists_def merged_path_def s3_key_def
  upload_audio_file_def apply_suggestions_def title_missing_def audio_reference_def basename_def
  py_lower_def lower_char_def py_strip_def ws1_def ws2_def ws3_def Let_def

theorem finalize_twice_witness:
  "merged_file_exists
     \<lparr>base_dir = ''/app/temp_audio'', audio_prefix = ''audio/'', id_str = (\<lambda>i. ''7''),
      stitch_audio_chunks_v3 = (\<lambda>files i. (None, files))\<rparr>
     [''/app/temp_audio/meeting_7.wav''] 7
   \<and> audio_reference (finalize_meeting_recording
     \<lparr>base_dir = ''/app/temp_audio'', audio_prefix = ''audio/'', id_str = (\<lambda>i. ''7''),
      stitch_audio_chunks_v3 = (\<lambda>files i. (None, files))\<rparr>
     \<lparr>upload_succeeds = True, suggested_template_id = None, suggested_description = None,
      suggested_title = Some ''Weekly sync''\<rparr>
     [\<lparr>meeting_id = 7, title = ''Untitled Meeting'', description = None, templateid = None,
       status = RECORDING, s3_audio_path = None, audio_filename = None,
       is_processed = False, analytics_status = Analytics_PENDING\<rparr>]
     [''/app/temp_audio/meeting_7.wav''] 7)
     = Some ''audio/7/7.mp3''
   \<and> audio_reference (finalize_meeting_recording
     \<lparr>base_dir = ''/app/temp_audio'', audio_prefix = ''audio/'', id_str = (\<lambda>i. ''7''),
      stitch_audio_chunks_v3 = (\<lambda>files i. (None, files))\<rparr>
     \<lparr>upload_succeeds = True, suggested_template_id = None, suggested_description = None,
      suggested_title = None\<rparr>
     [\<lparr>meeting_id = 7, title = ''Weekly sync'', description = None, templateid = None,
       status = PENDING, s3_audio_path = Some ''audio/7/7.mp3'', audio_filename = Some ''meeting_7.wav'',
       is_processed = False, analytics_status = Analytics_PENDING\<rparr>]
     [''/app/temp_audio/meeting_7.wav''] 7)
     = Some ''audio/7/7.mp3''"
proof -
  let ?cfg = "\<lparr>base_dir = ''/app/temp_audio'', audio_prefix = ''audio/'', id_str = (\<lambda>i::nat. ''7''),
      stitch_audio_chunks_v3 = (\<lambda>files (i::nat). (None, files))\<rparr>"
  let ?ext1 = "\<lparr>upload_succeeds = True, suggested_template_id = None, suggested_description = None,
      suggested_title = Some ''Weekly sync''\<rparr>"
  let ?ext2 = "\<lparr>upload_succeeds = True, suggested_template_id = None, suggested_description = None,
      suggested_title = None\<rparr>"
  let ?db = "[\<lparr>meeting_id = 7, title = ''Untitled Meeting'', description = None, templateid = None,
       status = RECORDING, s3_audio_path = None, audio_filename = None,
       is_processed = False, analytics_status = Analytics_PENDING\<rparr>]"
  let ?files = "[''/app/temp_audio/meeting_7.wav'']"
  let ?r1 = "finalize_meeting_recording ?cfg ?ext1 ?db ?files 7"
  have e: "merged_file_exists ?cfg ?files 7" by (simp add: merged_file_exists_def merged_path_def)
  have a1: "audio_reference ?r1 = Some ''audio/7/7.mp3''"
    by (simp add: finalize_defs)
  have d1: "db_after ?r1 =
     [\<lparr>meeting_id = 7, title = ''Weekly sync'', description = None, templateid = None,
       status = PENDING, s3_audio_path = Some ''audio/7/7.mp3'', audio_filename = Some ''meeting_7.wav'',
       is_processed = False, analytics_status = Analytics_PENDING\<rparr>]"
    by (simp add: finalize_defs)
  from finalize_twice [OF e refl refl, of ?ext1 ?db ?ext2]
  have "files_after ?r1 = ?files"
    and "audio_reference ?r1
         = audio_reference (finalize_meeting_recording ?cfg ?ext2 (db_after ?r1) (files_after ?r1) 7)"
    by simp_all
  with a1 d1 e show ?thesis by simp
qed

text \<open>
  The claim as it was stated, the same audio reference both times, fails when the
  object store is out of reach during the first call only: the first call leaves the
  path of the local file, the second the key.
\<close>

theorem finalize_twice_counterexample:
  "merged_file_exists
     \<lparr>base_dir = ''/app/temp_audio'', audio_prefix = ''audio/'', id_str = (\<lambda>i. ''7''),
      stitch_audio_chunks_v3 = (\<lambda>files i. (None, files))\<rparr>
     [''/app/temp_audio/meeting_7.wav''] 7
   \<and> audio_reference (finalize_meeting_recording
     \<lparr>base_dir = ''/app/temp_audio'', audio_prefix = ''audio/'', id_str = (\<lambda>i. ''7''),
      stitch_audio_chunks_v3 = (\<lambda>files i. (None, files))\<rparr>
     \<lparr>upload_succeeds = False, suggested_template_id = None, suggested_description = None,
      suggested_title = None\<rparr>
     [\<lparr>meeting_id = 7, title = ''Standup'', description = None, templateid = None,
       status = RECORDING, s3_audio_path = None, audio_filename = None,
       is_processed = False, analytics_status = Analytics_PENDING\<rparr>]
     [''/app/temp_audio/meeting_7.wav''] 7)
     = Some ''/app/temp_audio/meeting_7.wav''
   \<and> db_after (finalize_meeting_recording
     \<lparr>base_dir = ''/app/temp_audio'', audio_prefix = ''audio/'', id_str = (\<lambda>i. ''7''),
      stitch_audio_chunks_v3 = (\<lambda>files i. (None, files))\<rparr>
     \<lparr>upload_succeeds = False, suggested_template_id = None, suggested_description = None,
      suggested_title = None\<rparr>
     [\<lparr>meeting_id = 7, title = ''Standup'', description = None, templateid = None,
       status = RECORDING, s3_audio_path = None, audio_filename = None,
       is_processed = False, analytics_status = Analytics_PENDING\<rparr>]
     [''/app/temp_audio/meeting_7.wav''] 7)
     = [\<lparr>meeting_id = 7, title = ''Standup'', description = None, templateid = None,
        status = PENDING, s3_audio_path = Some ''/app/temp_audio/meeting_7.wav'',
        audio_filename = Some ''meeting_7.wav'',
        is_processed = False, analytics_status = Analytics_PENDING\<rparr>]
   \<and> audio_reference (finalize_meeting_recording
     \<lparr>base_dir = ''/app/temp_audio'', audio_prefix = ''audio/'', id_str = (\<lambda>i. ''7''),
      stitch_audio_chunks_v3 = (\<lambda>files i. (None, files))\<rparr>
     \<lparr>upload_succeeds = True, suggested_template_id = None, suggested_description = None,
      suggested_title = None\<rparr>
     [\<lparr>meeting_id = 7, title = ''Standup'', description = None, templateid = None,
        status = PENDING, s3_audio_path = Some ''/app/temp_audio/meeting_7.wav'',
        audio_filename = Some ''meeting_7.wav'',
        is_processed = False, analytics_status = Analytics_PENDING\<rparr>]
     [''/app/temp_audio/meeting_7.wav''] 7)
     = Some ''audio/7/7.mp3''"
  by (simp add: finalize_defs)

end
